theory Spec2Isabelle
  imports Complex_Main "HOL-Library.Multiset"
begin

section \<open>Python values and built-ins used by the validation rules\<close>

text \<open>
  Text is modelled by \<^typ>\<open>string\<close>; a \<^typ>\<open>char\<close> stands for the Unicode code
  point of the same number, so the model covers Python strings over the code points
  below 256. A finite Python \<^verbatim>\<open>float\<close> is the rational value of a binary64 number:
  parsing, conversion from an integer and arithmetic round to the nearest such number,
  a tie going to the even mantissa, and overflow to infinity is modelled; a zero has no
  sign. The decimal rendering of a finite float (\<^verbatim>\<open>repr\<close>) is a parameter
  \<open>float_repr\<close> of every definition that needs it.
\<close>

datatype py_exn = ValueError | TypeError | OverflowError | ZeroDivisionError | Exception string

datatype pyfloat = Finite rat | PosInf | NegInf | NaN

datatype cell = PyNone | StrV string | IntV int | FloatV pyfloat

definition isspace :: "char \<Rightarrow> bool" where
  "isspace c \<longleftrightarrow> c \<in> set [CHR 0x09, CHR 0x0A, CHR 0x0B, CHR 0x0C, CHR 0x0D,
     CHR 0x1C, CHR 0x1D, CHR 0x1E, CHR 0x1F, CHR 0x20, CHR 0x85, CHR 0xA0]"

definition strip :: "string \<Rightarrow> string" where
  "strip s = rev (dropWhile isspace (rev (dropWhile isspace s)))"

definition is_decimal :: "char \<Rightarrow> bool" where
  "is_decimal c \<longleftrightarrow> c \<in> set ''0123456789''"

definition isdigit_char :: "char \<Rightarrow> bool" where
  "isdigit_char c \<longleftrightarrow> is_decimal c \<or> c \<in> set [CHR 0xB2, CHR 0xB3, CHR 0xB9]"

definition isdigit :: "string \<Rightarrow> bool" where
  "isdigit s \<longleftrightarrow> s \<noteq> [] \<and> list_all isdigit_char s"

definition lower_char :: "char \<Rightarrow> char" where
  "lower_char c =
     (let n = (of_char c :: nat)
      in if (65 \<le> n \<and> n \<le> 90) \<or> (192 \<le> n \<and> n \<le> 222 \<and> n \<noteq> 215)
         then char_of (n + 32) else c)"

definition lower :: "string \<Rightarrow> string" where
  "lower s = map lower_char s"

definition digit_char :: "int \<Rightarrow> char" where
  "digit_char d = char_of (48 + d)"

text \<open>The decimal digits of a non-negative integer.\<close>

function str_digits :: "int \<Rightarrow> string" where
  "str_digits n =
     (if n < 10 then [digit_char n] else str_digits (n div 10) @ [digit_char (n mod 10)])"
  by pat_completeness auto
termination
  by (relation "measure nat") auto

declare str_digits.simps [simp del]

text \<open>\<^verbatim>\<open>str(i)\<close> for an integer.\<close>

definition str_int :: "int \<Rightarrow> string" where
  "str_int i = (if i < 0 then CHR ''-'' # str_digits (- i) else str_digits i)"

definition digit_val :: "char \<Rightarrow> int" where
  "digit_val c = of_char c - 48"

definition int_of_digits :: "string \<Rightarrow> int" where
  "int_of_digits ds = foldl (\<lambda>acc c. 10 * acc + digit_val c) 0 ds"

text \<open>Underscores in a numeric literal are accepted only between two digits.\<close>

fun underscores_ok :: "char option \<Rightarrow> string \<Rightarrow> bool" where
  "underscores_ok prev [] = True"
| "underscores_ok prev (c # cs) =
     (if c = CHR ''_''
      then (case prev of None \<Rightarrow> False | Some p \<Rightarrow> is_decimal p)
           \<and> (case cs of [] \<Rightarrow> False | d # _ \<Rightarrow> is_decimal d)
           \<and> underscores_ok (Some c) cs
      else underscores_ok (Some c) cs)"

definition split_sign :: "string \<Rightarrow> bool \<times> string" where
  "split_sign s =
     (case s of
        [] \<Rightarrow> (False, [])
      | c # cs \<Rightarrow> if c = CHR ''-'' then (True, cs) else if c = CHR ''+'' then (False, cs)
                 else (False, s))"

text \<open>\<^verbatim>\<open>int(s)\<close> for a string, base 10.\<close>

definition py_int_str :: "string \<Rightarrow> py_exn + int" where
  "py_int_str s0 =
     (let s = strip s0
      in if \<not> underscores_ok None s then Inl ValueError
         else (let (neg, ds) = split_sign (filter (\<lambda>c. c \<noteq> CHR ''_'') s)
               in if ds \<noteq> [] \<and> list_all is_decimal ds
                  then Inr (if neg then - int_of_digits ds else int_of_digits ds)
                  else Inl ValueError))"

text \<open>
  A value whose magnitude reaches \<open>2^1024 - 2^970\<close> rounds to infinity in binary64:
  \<^verbatim>\<open>float(s)\<close> then returns an infinity, and \<^verbatim>\<open>float(i)\<close> for an integer raises
  \<^verbatim>\<open>OverflowError\<close>.
\<close>

definition float_overflow_bound :: rat where
  "float_overflow_bound = 179769313486231580793728971405303415079934132710037826936173778980444968292764750946649017977587207096330286416692887910946555547851940402630657488671505820681908902000708383676273854845817711531764475730270069855571366959622842914819860834936475292719074168444365510704342711559699508093042880177904174497792"

definition float_overflows :: "rat \<Rightarrow> bool" where
  "float_overflows q \<longleftrightarrow> \<bar>q\<bar> \<ge> float_overflow_bound"

definition pow10 :: "int \<Rightarrow> rat" where
  "pow10 k = (if k \<ge> 0 then 10 ^ nat k else 1 / 10 ^ nat (- k))"

text \<open>\<^verbatim>\<open>n.bit_length()\<close> for a positive integer.\<close>

function bit_length :: "int \<Rightarrow> int" where
  "bit_length n = (if n \<le> 0 then 0 else 1 + bit_length (n div 2))"
  by pat_completeness auto
termination
  by (relation "measure nat") auto

declare bit_length.simps [simp del]

definition pow2 :: "int \<Rightarrow> rat" where
  "pow2 k = (if k \<ge> 0 then of_int (2 ^ nat k) else 1 / of_int (2 ^ nat (- k)))"

text \<open>The binary exponent of a positive rational \<open>a\<close>: the \<open>e\<close> with \<open>2^e \<le> a < 2^(e+1)\<close>.\<close>

definition floor_log2 :: "rat \<Rightarrow> int" where
  "floor_log2 a =
     (case quotient_of a of (n, d) \<Rightarrow>
        (let g = bit_length n - bit_length d in if pow2 g \<le> a then g else g - 1))"

text \<open>The nearest integer, a tie going to the even one.\<close>

definition round_half_even :: "rat \<Rightarrow> int" where
  "round_half_even q =
     (let f = \<lfloor>q\<rfloor>; d = q - of_int f
      in if d < 1 / 2 then f else if d > 1 / 2 then f + 1 else if even f then f else f + 1)"

text \<open>
  Rounding to binary64: a mantissa of 53 bits, the exponent not below that of the
  subnormal numbers, the mantissa rounded to the nearest integer with ties to even.
\<close>

definition binary64 :: "rat \<Rightarrow> rat" where
  "binary64 q =
     (if q = 0 then 0
      else (let a = \<bar>q\<bar>;
                e = max (floor_log2 a) (- 1022);
                ulp = pow2 (e - 52);
                r = of_int (round_half_even (a / ulp)) * ulp
            in if q < 0 then - r else r))"

definition float_of_rat :: "rat \<Rightarrow> pyfloat" where
  "float_of_rat q =
     (if float_overflows q then (if q < 0 then NegInf else PosInf) else Finite (binary64 q))"

text \<open>
  The exponent part of a float literal: empty, or \<^verbatim>\<open>e\<close>/\<^verbatim>\<open>E\<close>, an optional sign and
  at least one digit.
\<close>

definition parse_exponent :: "string \<Rightarrow> int option" where
  "parse_exponent r =
     (case r of
        [] \<Rightarrow> Some 0
      | c # cs \<Rightarrow>
          if c = CHR ''e'' \<or> c = CHR ''E''
          then (let (neg, ds) = split_sign cs
                in if ds \<noteq> [] \<and> list_all is_decimal ds
                   then Some (if neg then - int_of_digits ds else int_of_digits ds)
                   else None)
          else None)"

text \<open>\<^verbatim>\<open>float(s)\<close> for a string.\<close>

definition py_float_str :: "string \<Rightarrow> py_exn + pyfloat" where
  "py_float_str s0 =
     (let s = strip s0
      in if \<not> underscores_ok None s then Inl ValueError
         else (let (neg, body) = split_sign (filter (\<lambda>c. c \<noteq> CHR ''_'') s)
               in if lower body = ''inf'' \<or> lower body = ''infinity''
                  then Inr (if neg then NegInf else PosInf)
                  else if lower body = ''nan'' then Inr NaN
                  else (let ip = takeWhile is_decimal body;
                            r1 = dropWhile is_decimal body;
                            has_point = (r1 \<noteq> [] \<and> hd r1 = CHR ''.'');
                            fp = (if has_point then takeWhile is_decimal (tl r1) else []);
                            r2 = (if has_point then dropWhile is_decimal (tl r1) else r1)
                        in if ip = [] \<and> fp = [] then Inl ValueError
                           else (case parse_exponent r2 of
                                   None \<Rightarrow> Inl ValueError
                                 | Some ex \<Rightarrow>
                                     (let m = rat_of_int (int_of_digits (ip @ fp))
                                                * pow10 (ex - int (length fp))
                                      in Inr (float_of_rat (if neg then - m else m)))))))"

text \<open>\<^verbatim>\<open>float(v)\<close> for a cell value.\<close>

definition py_float :: "cell \<Rightarrow> py_exn + pyfloat" where
  "py_float v =
     (case v of
        PyNone \<Rightarrow> Inl TypeError
      | StrV s \<Rightarrow> py_float_str s
      | IntV i \<Rightarrow> if float_overflows (rat_of_int i) then Inl OverflowError
                  else Inr (Finite (binary64 (rat_of_int i)))
      | FloatV f \<Rightarrow> Inr f)"

text \<open>\<^verbatim>\<open>int(f)\<close> for a float: truncation towards zero.\<close>

definition py_int_float :: "pyfloat \<Rightarrow> py_exn + int" where
  "py_int_float f =
     (case f of
        Finite q \<Rightarrow> Inr (if q < 0 then - \<lfloor>- q\<rfloor> else \<lfloor>q\<rfloor>)
      | PosInf \<Rightarrow> Inl OverflowError
      | NegInf \<Rightarrow> Inl OverflowError
      | NaN \<Rightarrow> Inl ValueError)"

definition str_float :: "(rat \<Rightarrow> string) \<Rightarrow> pyfloat \<Rightarrow> string" where
  "str_float float_repr f =
     (case f of Finite q \<Rightarrow> float_repr q | PosInf \<Rightarrow> ''inf'' | NegInf \<Rightarrow> ''-inf''
      | NaN \<Rightarrow> ''nan'')"

text \<open>\<^verbatim>\<open>str(v)\<close> for a cell value.\<close>

definition py_str :: "(rat \<Rightarrow> string) \<Rightarrow> cell \<Rightarrow> string" where
  "py_str float_repr v =
     (case v of
        PyNone \<Rightarrow> ''None''
      | StrV s \<Rightarrow> s
      | IntV i \<Rightarrow> str_int i
      | FloatV f \<Rightarrow> str_float float_repr f)"

text \<open>\<^verbatim>\<open>pd.isna(v)\<close> for a scalar: \<^verbatim>\<open>None\<close> and the float NaN are missing.\<close>

definition pd_isna :: "cell \<Rightarrow> bool" where
  "pd_isna v \<longleftrightarrow> v = PyNone \<or> v = FloatV NaN"

text \<open>Comparison of floats; every comparison with NaN is false.\<close>

fun fl_less :: "pyfloat \<Rightarrow> pyfloat \<Rightarrow> bool" where
  "fl_less NaN _ = False"
| "fl_less _ NaN = False"
| "fl_less (Finite a) (Finite b) = (a < b)"
| "fl_less NegInf NegInf = False"
| "fl_less NegInf _ = True"
| "fl_less _ NegInf = False"
| "fl_less PosInf _ = False"
| "fl_less _ PosInf = True"

fun fl_le :: "pyfloat \<Rightarrow> pyfloat \<Rightarrow> bool" where
  "fl_le NaN _ = False"
| "fl_le _ NaN = False"
| "fl_le (Finite a) (Finite b) = (a \<le> b)"
| "fl_le NegInf _ = True"
| "fl_le _ PosInf = True"
| "fl_le PosInf _ = False"
| "fl_le _ NegInf = False"

section \<open>Data model\<close>

text \<open>
  A dataset is a pandas DataFrame with the default index: the ordered column names and
  the rows in order, a row being the list of its cells in column order. Column names are
  strings and pairwise distinct; \<^verbatim>\<open>iterrows\<close> yields the position of a row as its index.
  A cell that a row does not have is missing.
\<close>

record dataframe =
  df_columns :: "string list"
  df_rows :: "cell list list"

definition df_len :: "dataframe \<Rightarrow> nat" where
  "df_len df = length (df_rows df)"

definition row_get :: "dataframe \<Rightarrow> cell list \<Rightarrow> string \<Rightarrow> cell" where
  "row_get df row col = (case map_of (zip (df_columns df) row) col of Some v \<Rightarrow> v | None \<Rightarrow> PyNone)"

text \<open>
  The configuration: \<^verbatim>\<open>config['columns']\<close>, a dict from logical to actual column names, and
  \<^verbatim>\<open>config['options']\<close> with the three keys the rules read; \<open>None\<close> is an absent key.
\<close>

record options =
  coordinate_system :: "string option"
  duplicate_key_columns :: "string list option"
  numeric_columns :: "string list option"

record config =
  columns :: "(string \<times> string) list"
  opts :: options

definition dict_get :: "('k \<times> 'v) list \<Rightarrow> 'k \<Rightarrow> 'v \<Rightarrow> 'v" where
  "dict_get d k dflt = (case map_of d k of Some v \<Rightarrow> v | None \<Rightarrow> dflt)"

datatype severity = ERROR | WARNING | INFO

datatype category = ADDRESS | COORDINATES | EGID | GENERAL | CUSTOM

record validation_error =
  row_index :: int
  column :: string
  rule_id :: string
  rule_name :: string
  severity :: severity
  message :: string
  val :: cell
  suggestion :: "string option"

text \<open>The metadata of a rule; the descriptions and examples, which no operation reads, are left out.\<close>

record rule_metadata =
  md_id :: string
  md_name :: string
  md_name_de :: string
  md_category :: category
  md_severity :: severity
  md_required_columns :: "string list"

text \<open>
  A rule is its metadata and its \<^verbatim>\<open>validate\<close> method. A call of \<^verbatim>\<open>validate\<close> either
  raises an exception (\<open>Inl\<close>) or returns its findings (\<open>Inr\<close>); the second component is
  the configuration object as the call leaves it.
\<close>

record rule =
  metadata :: rule_metadata
  validate :: "dataframe \<Rightarrow> config \<Rightarrow> (py_exn + validation_error list) \<times> config"

section \<open>BaseRule\<close>

definition is_applicable :: "rule \<Rightarrow> dataframe \<Rightarrow> config \<Rightarrow> bool" where
  "is_applicable r df cfg =
     list_all (\<lambda>required. dict_get (columns cfg) required required \<in> set (df_columns df))
       (md_required_columns (metadata r))"

definition get_column :: "dataframe \<Rightarrow> config \<Rightarrow> string \<Rightarrow> string option" where
  "get_column df cfg logical_name =
     (let actual_col = dict_get (columns cfg) logical_name logical_name
      in if actual_col \<in> set (df_columns df) then Some actual_col
         else find (\<lambda>col. lower col = lower actual_col) (df_columns df))"

text \<open>
  \<^verbatim>\<open>for idx, row in df.iterrows()\<close> with a body that appends findings and may raise: the
  findings of the rows in order, or the first exception.
\<close>

fun iterrows :: "(nat \<Rightarrow> cell list \<Rightarrow> py_exn + validation_error list) \<Rightarrow> nat \<Rightarrow> cell list list
    \<Rightarrow> py_exn + validation_error list" where
  "iterrows body idx [] = Inr []"
| "iterrows body idx (row # rest) =
     (case body idx row of
        Inl e \<Rightarrow> Inl e
      | Inr errs \<Rightarrow> (case iterrows body (Suc idx) rest of
                      Inl e \<Rightarrow> Inl e
                    | Inr others \<Rightarrow> Inr (errs @ others)))"

text \<open>The same for a loop over the elements of a list.\<close>

fun for_each :: "('a \<Rightarrow> py_exn + validation_error list) \<Rightarrow> 'a list
    \<Rightarrow> py_exn + validation_error list" where
  "for_each body [] = Inr []"
| "for_each body (x # xs) =
     (case body x of
        Inl e \<Rightarrow> Inl e
      | Inr errs \<Rightarrow> (case for_each body xs of
                      Inl e \<Rightarrow> Inl e
                    | Inr others \<Rightarrow> Inr (errs @ others)))"

text \<open>\<^verbatim>\<open>sep.join(xs)\<close>.\<close>

fun join :: "string \<Rightarrow> string list \<Rightarrow> string" where
  "join sep [] = []"
| "join sep [x] = x"
| "join sep (x # y # ys) = x @ sep @ join sep (y # ys)"

text \<open>
  The rule classes of the catalogue and the metadata each of them declares. A class has
  no state of its own, so its instance is identified with the class.
\<close>

datatype rule_class =
    RequiredFieldsRule | PLZFormatRule | CantonValidationRule | StreetFormatRule
  | CoordinatePresenceRule | SwissBoundsRule | CoordinatePrecisionRule
  | EGIDFormatRule | EGIDUniquenessRule | EGIDPresenceRule
  | DuplicateRowsRule | EmptyRowsRule | DataTypeConsistencyRule | EncodingIssuesRule

fun class_metadata :: "rule_class \<Rightarrow> rule_metadata" where
  "class_metadata RequiredFieldsRule =
     \<lparr>md_id = ''R-ADDR-01'', md_name = ''Required Fields'', md_name_de = ''Pflichtfelder'',
      md_category = ADDRESS, md_severity = ERROR, md_required_columns = []\<rparr>"
| "class_metadata PLZFormatRule =
     \<lparr>md_id = ''R-ADDR-02'', md_name = ''PLZ Format'', md_name_de = ''PLZ-Format'',
      md_category = ADDRESS, md_severity = ERROR, md_required_columns = [''plz'']\<rparr>"
| "class_metadata CantonValidationRule =
     \<lparr>md_id = ''R-ADDR-04'', md_name = ''Canton Validation'', md_name_de = ''Kanton-Validierung'',
      md_category = ADDRESS, md_severity = ERROR, md_required_columns = [''kanton'']\<rparr>"
| "class_metadata StreetFormatRule =
     \<lparr>md_id = ''R-ADDR-05'', md_name = ''Street Format'', md_name_de = ''Strassenformat'',
      md_category = ADDRESS, md_severity = WARNING, md_required_columns = [''strasse'']\<rparr>"
| "class_metadata CoordinatePresenceRule =
     \<lparr>md_id = ''R-COORD-01'', md_name = ''Coordinate Presence'',
      md_name_de = ''Koordinaten vorhanden'',
      md_category = COORDINATES, md_severity = WARNING,
      md_required_columns = [''easting'', ''northing'']\<rparr>"
| "class_metadata SwissBoundsRule =
     \<lparr>md_id = ''R-COORD-02'', md_name = ''Swiss Bounds Check'', md_name_de = ''Schweizer Grenzen'',
      md_category = COORDINATES, md_severity = ERROR,
      md_required_columns = [''easting'', ''northing'']\<rparr>"
| "class_metadata CoordinatePrecisionRule =
     \<lparr>md_id = ''R-COORD-04'', md_name = ''Coordinate Precision'',
      md_name_de = ''Koordinaten-Pr'' @ [CHR 0xE4] @ ''zision'',
      md_category = COORDINATES, md_severity = WARNING,
      md_required_columns = [''easting'', ''northing'']\<rparr>"
| "class_metadata EGIDFormatRule =
     \<lparr>md_id = ''R-EGID-01'', md_name = ''EGID Format'', md_name_de = ''EGID-Format'',
      md_category = EGID, md_severity = ERROR, md_required_columns = [''egid'']\<rparr>"
| "class_metadata EGIDUniquenessRule =
     \<lparr>md_id = ''R-EGID-02'', md_name = ''EGID Uniqueness'', md_name_de = ''EGID-Eindeutigkeit'',
      md_category = EGID, md_severity = WARNING, md_required_columns = [''egid'']\<rparr>"
| "class_metadata EGIDPresenceRule =
     \<lparr>md_id = ''R-EGID-03'', md_name = ''EGID Presence'', md_name_de = ''EGID vorhanden'',
      md_category = EGID, md_severity = ERROR, md_required_columns = [''egid'']\<rparr>"
| "class_metadata DuplicateRowsRule =
     \<lparr>md_id = ''R-GEN-01'', md_name = ''Duplicate Rows'', md_name_de = ''Doppelte Zeilen'',
      md_category = GENERAL, md_severity = WARNING, md_required_columns = []\<rparr>"
| "class_metadata EmptyRowsRule =
     \<lparr>md_id = ''R-GEN-02'', md_name = ''Empty Rows'', md_name_de = ''Leere Zeilen'',
      md_category = GENERAL, md_severity = INFO, md_required_columns = []\<rparr>"
| "class_metadata DataTypeConsistencyRule =
     \<lparr>md_id = ''R-GEN-03'', md_name = ''Data Type Consistency'',
      md_name_de = ''Datentyp-Konsistenz'',
      md_category = GENERAL, md_severity = WARNING, md_required_columns = []\<rparr>"
| "class_metadata EncodingIssuesRule =
     \<lparr>md_id = ''R-GEN-04'', md_name = ''Encoding Issues'', md_name_de = ''Zeichenkodierung'',
      md_category = GENERAL, md_severity = WARNING, md_required_columns = []\<rparr>"

text \<open>A finding of a rule class, with the identity fields every rule fills from its metadata.\<close>

definition finding :: "rule_class \<Rightarrow> nat \<Rightarrow> string \<Rightarrow> string \<Rightarrow> cell \<Rightarrow> string option
    \<Rightarrow> validation_error" where
  "finding cls idx col msg v sugg =
     \<lparr>row_index = int idx, column = col, rule_id = md_id (class_metadata cls),
      rule_name = md_name_de (class_metadata cls), severity = md_severity (class_metadata cls),
      message = msg, val = v, suggestion = sugg\<rparr>"

definition quote :: "string \<Rightarrow> string" where
  "quote s = [CHR 0x27] @ s @ [CHR 0x27]"

section \<open>Address rules\<close>

definition plz_error :: "nat \<Rightarrow> string \<Rightarrow> cell \<Rightarrow> string \<Rightarrow> validation_error" where
  "plz_error idx plz_col v msg = finding PLZFormatRule idx plz_col msg v None"

text \<open>
  The normalisation of a value with a decimal point, \<^verbatim>\<open>str(int(float(plz_str)))\<close>: a
  \<^verbatim>\<open>ValueError\<close> leaves the string as it is, any other exception leaves the rule.
\<close>

definition plz_normalize :: "string \<Rightarrow> py_exn + string" where
  "plz_normalize plz_str =
     (if CHR ''.'' \<in> set plz_str
      then (case py_float_str plz_str of
              Inl e \<Rightarrow> if e = ValueError then Inr plz_str else Inl e
            | Inr f \<Rightarrow> (case py_int_float f of
                         Inl e \<Rightarrow> if e = ValueError then Inr plz_str else Inl e
                       | Inr i \<Rightarrow> Inr (str_int i)))
      else Inr plz_str)"

definition plz_row :: "(rat \<Rightarrow> string) \<Rightarrow> dataframe \<Rightarrow> string \<Rightarrow> nat \<Rightarrow> cell list
    \<Rightarrow> py_exn + validation_error list" where
  "plz_row float_repr df plz_col idx row =
     (let v = row_get df row plz_col
      in if pd_isna v \<or> strip (py_str float_repr v) = [] then Inr []
         else (case plz_normalize (strip (py_str float_repr v)) of
                 Inl e \<Rightarrow> Inl e
               | Inr plz_str \<Rightarrow>
                   if \<not> isdigit plz_str
                   then Inr [plz_error idx plz_col v
                          (''PLZ muss numerisch sein: '' @ quote (py_str float_repr v))]
                   else if length plz_str \<noteq> 4
                   then Inr [plz_error idx plz_col v
                          (''PLZ muss 4-stellig sein: '' @ quote (py_str float_repr v) @ '' (''
                             @ str_int (int (length plz_str)) @ '' Stellen)'')]
                   else (case py_int_str plz_str of
                           Inl e \<Rightarrow> Inl e
                         | Inr n \<Rightarrow>
                             if \<not> (1000 \<le> n \<and> n \<le> 9999)
                             then Inr [plz_error idx plz_col v
                                    (''PLZ ausserhalb g'' @ [CHR 0xFC] @ ''ltiger Bereich: ''
                                       @ quote (py_str float_repr v) @ '' (muss 1000-9999 sein)'')]
                             else Inr [])))"

definition PLZFormatRule_validate :: "(rat \<Rightarrow> string) \<Rightarrow> dataframe \<Rightarrow> config
    \<Rightarrow> (py_exn + validation_error list) \<times> config" where
  "PLZFormatRule_validate float_repr df cfg =
     (case get_column df cfg ''plz'' of
        None \<Rightarrow> (Inr [], cfg)
      | Some plz_col \<Rightarrow> (iterrows (plz_row float_repr df plz_col) 0 (df_rows df), cfg))"

definition PLZFormatRule_obj :: "(rat \<Rightarrow> string) \<Rightarrow> rule" where
  "PLZFormatRule_obj float_repr =
     \<lparr>metadata = class_metadata PLZFormatRule, validate = PLZFormatRule_validate float_repr\<rparr>"

section \<open>Coordinate rules\<close>

definition detect_coordinate_system :: "pyfloat \<Rightarrow> pyfloat \<Rightarrow> string option" where
  "detect_coordinate_system e n =
     (if fl_less (Finite 2000000) e \<and> fl_less e (Finite 3000000)
         \<and> fl_less (Finite 1000000) n \<and> fl_less n (Finite 2000000)
      then Some ''LV95''
      else if fl_less (Finite 5) e \<and> fl_less e (Finite 11)
         \<and> fl_less (Finite 45) n \<and> fl_less n (Finite 48)
      then Some ''WGS84''
      else None)"

text \<open>The bounds check of one coordinate pair once the system is known.\<close>

definition swiss_check :: "(rat \<Rightarrow> string) \<Rightarrow> string \<Rightarrow> string \<Rightarrow> nat \<Rightarrow> string
    \<Rightarrow> pyfloat \<Rightarrow> pyfloat \<Rightarrow> validation_error list" where
  "swiss_check float_repr e_col n_col idx system e n =
     (if system = ''LV95''
      then (if \<not> (fl_le (Finite 2485000) e \<and> fl_le e (Finite 2834000))
            then [finding SwissBoundsRule idx e_col
                    (''E-Koordinate ausserhalb Schweiz: '' @ str_float float_repr e
                       @ '' (LV95: 2485000-2834000)'') (FloatV e) None]
            else [])
         @ (if \<not> (fl_le (Finite 1075000) n \<and> fl_le n (Finite 1296000))
            then [finding SwissBoundsRule idx n_col
                    (''N-Koordinate ausserhalb Schweiz: '' @ str_float float_repr n
                       @ '' (LV95: 1075000-1296000)'') (FloatV n) None]
            else [])
      else (if \<not> (fl_le (Finite (binary64 (59 / 10))) e \<and> fl_le e (Finite (binary64 (105 / 10))))
            then [finding SwissBoundsRule idx e_col
                    (''Longitude ausserhalb Schweiz: '' @ str_float float_repr e
                       @ '' (WGS84: 5.9-10.5)'') (FloatV e) None]
            else [])
         @ (if \<not> (fl_le (Finite (binary64 (458 / 10))) n \<and> fl_le n (Finite (binary64 (479 / 10))))
            then [finding SwissBoundsRule idx n_col
                    (''Latitude ausserhalb Schweiz: '' @ str_float float_repr n
                       @ '' (WGS84: 45.8-47.9)'') (FloatV n) None]
            else []))"

text \<open>
  \<^verbatim>\<open>e = float(e_val); n = float(n_val)\<close> under \<^verbatim>\<open>except (ValueError, TypeError)\<close>:
  \<open>Inr None\<close> is the handled failure.
\<close>

definition swiss_parse :: "cell \<Rightarrow> cell \<Rightarrow> py_exn + (pyfloat \<times> pyfloat) option" where
  "swiss_parse e_val n_val =
     (case py_float e_val of
        Inl ex \<Rightarrow> if ex = ValueError \<or> ex = TypeError then Inr None else Inl ex
      | Inr e \<Rightarrow> (case py_float n_val of
                    Inl ex \<Rightarrow> if ex = ValueError \<or> ex = TypeError then Inr None else Inl ex
                  | Inr n \<Rightarrow> Inr (Some (e, n))))"

definition swiss_row :: "(rat \<Rightarrow> string) \<Rightarrow> dataframe \<Rightarrow> string \<Rightarrow> string \<Rightarrow> string \<Rightarrow> nat
    \<Rightarrow> cell list \<Rightarrow> py_exn + validation_error list" where
  "swiss_row float_repr df e_col n_col coord_system idx row =
     (let e_val = row_get df row e_col; n_val = row_get df row n_col
      in if pd_isna e_val \<or> pd_isna n_val then Inr []
         else (case swiss_parse e_val n_val of
                 Inl ex \<Rightarrow> Inl ex
               | Inr None \<Rightarrow>
                   Inr [finding SwissBoundsRule idx (e_col @ ''/'' @ n_col)
                          (''Ung'' @ [CHR 0xFC] @ ''ltige Koordinatenwerte: E=''
                             @ py_str float_repr e_val @ '', N='' @ py_str float_repr n_val)
                          (StrV (''E='' @ py_str float_repr e_val @ '', N=''
                             @ py_str float_repr n_val)) None]
               | Inr (Some (e, n)) \<Rightarrow>
                   if coord_system = ''auto''
                   then (case detect_coordinate_system e n of
                           None \<Rightarrow>
                             Inr [finding SwissBoundsRule idx (e_col @ ''/'' @ n_col)
                                    (''Koordinatensystem nicht erkennbar: E=''
                                       @ str_float float_repr e @ '', N=''
                                       @ str_float float_repr n)
                                    (StrV (''E='' @ str_float float_repr e @ '', N=''
                                       @ str_float float_repr n)) None]
                         | Some detected \<Rightarrow>
                             Inr (swiss_check float_repr e_col n_col idx detected e n))
                   else Inr (swiss_check float_repr e_col n_col idx coord_system e n)))"

definition SwissBoundsRule_validate :: "(rat \<Rightarrow> string) \<Rightarrow> dataframe \<Rightarrow> config
    \<Rightarrow> (py_exn + validation_error list) \<times> config" where
  "SwissBoundsRule_validate float_repr df cfg =
     (case (get_column df cfg ''easting'', get_column df cfg ''northing'') of
        (Some e_col, Some n_col) \<Rightarrow>
          (iterrows
             (swiss_row float_repr df e_col n_col
                (case coordinate_system (opts cfg) of None \<Rightarrow> ''auto'' | Some cs \<Rightarrow> cs))
             0 (df_rows df), cfg)
      | _ \<Rightarrow> (Inr [], cfg))"

definition SwissBoundsRule_obj :: "(rat \<Rightarrow> string) \<Rightarrow> rule" where
  "SwissBoundsRule_obj float_repr =
     \<lparr>metadata = class_metadata SwissBoundsRule,
      validate = SwissBoundsRule_validate float_repr\<rparr>"

section \<open>EGID rules\<close>

text \<open>
  The key under which a non-empty EGID value is grouped; \<open>Inr None\<close> is a value whose
  normalisation raised \<^verbatim>\<open>ValueError\<close> or \<^verbatim>\<open>TypeError\<close> and is passed over.
\<close>

definition egid_key :: "string \<Rightarrow> py_exn + string option" where
  "egid_key egid_str =
     (if CHR ''.'' \<in> set egid_str
      then (case py_float_str egid_str of
              Inl ex \<Rightarrow> if ex = ValueError \<or> ex = TypeError then Inr None else Inl ex
            | Inr f \<Rightarrow> (case py_int_float f of
                         Inl ex \<Rightarrow> if ex = ValueError \<or> ex = TypeError then Inr None else Inl ex
                       | Inr i \<Rightarrow> Inr (Some (str_int i))))
      else Inr (Some egid_str))"

text \<open>
  \<^verbatim>\<open>egid_rows\<close> is a dict in insertion order; a new key is entered with an empty list, then
  the row index is appended to the key's list.
\<close>

definition dict_append :: "(string \<times> nat list) list \<Rightarrow> string \<Rightarrow> nat \<Rightarrow> (string \<times> nat list) list" where
  "dict_append d k idx =
     (if k \<in> fst ` set d
      then map (\<lambda>(k', rows). if k' = k then (k', rows @ [idx]) else (k', rows)) d
      else d @ [(k, [idx])])"

fun egid_collect :: "(rat \<Rightarrow> string) \<Rightarrow> dataframe \<Rightarrow> string \<Rightarrow> nat \<Rightarrow> cell list list
    \<Rightarrow> (string \<times> nat list) list \<Rightarrow> py_exn + (string \<times> nat list) list" where
  "egid_collect float_repr df egid_col idx [] egid_rows = Inr egid_rows"
| "egid_collect float_repr df egid_col idx (row # rest) egid_rows =
     (let v = row_get df row egid_col
      in if pd_isna v \<or> strip (py_str float_repr v) = []
         then egid_collect float_repr df egid_col (Suc idx) rest egid_rows
         else (case egid_key (strip (py_str float_repr v)) of
                 Inl ex \<Rightarrow> Inl ex
               | Inr None \<Rightarrow> egid_collect float_repr df egid_col (Suc idx) rest egid_rows
               | Inr (Some k) \<Rightarrow>
                   egid_collect float_repr df egid_col (Suc idx) rest
                     (dict_append egid_rows k idx)))"

definition egid_report :: "string \<Rightarrow> string \<times> nat list \<Rightarrow> validation_error list" where
  "egid_report egid_col item =
     (case item of (egid, rows) \<Rightarrow>
        if length rows > 1
        then map (\<lambda>idx. finding EGIDUniquenessRule idx egid_col
                   (''EGID '' @ quote egid @ '' kommt mehrfach vor (Zeilen: ''
                      @ join '', '' (map (\<lambda>r. str_int (int r + 2)) rows) @ '')'')
                   (StrV egid)
                   (Some (''Pr'' @ [CHR 0xFC] @ ''fen Sie, ob es sich um Duplikate oder ''
                      @ ''verschiedene Einheiten handelt'')))
               (tl rows)
        else [])"

definition EGIDUniquenessRule_validate :: "(rat \<Rightarrow> string) \<Rightarrow> dataframe \<Rightarrow> config
    \<Rightarrow> (py_exn + validation_error list) \<times> config" where
  "EGIDUniquenessRule_validate float_repr df cfg =
     (case get_column df cfg ''egid'' of
        None \<Rightarrow> (Inr [], cfg)
      | Some egid_col \<Rightarrow>
          (case egid_collect float_repr df egid_col 0 (df_rows df) [] of
             Inl ex \<Rightarrow> (Inl ex, cfg)
           | Inr egid_rows \<Rightarrow> (Inr (concat (map (egid_report egid_col) egid_rows)), cfg)))"

definition EGIDUniquenessRule_obj :: "(rat \<Rightarrow> string) \<Rightarrow> rule" where
  "EGIDUniquenessRule_obj float_repr =
     \<lparr>metadata = class_metadata EGIDUniquenessRule,
      validate = EGIDUniquenessRule_validate float_repr\<rparr>"

section \<open>General rules\<close>

text \<open>
  The first loop of \<^verbatim>\<open>DataTypeConsistencyRule.validate\<close>: the mapped columns of the four
  logical names that exist in the dataset are appended to \<^verbatim>\<open>numeric_cols\<close>.
\<close>

definition add_mapped_column :: "dataframe \<Rightarrow> (string \<times> string) list \<Rightarrow> string list \<Rightarrow> string
    \<Rightarrow> string list" where
  "add_mapped_column df cols numeric_cols logical_name =
     (case map_of cols logical_name of
        None \<Rightarrow> numeric_cols
      | Some col \<Rightarrow>
          if col \<in> set (df_columns df) \<and> col \<notin> set numeric_cols then numeric_cols @ [col]
          else numeric_cols)"

definition detect_numeric_cols :: "dataframe \<Rightarrow> (string \<times> string) list \<Rightarrow> string list \<Rightarrow> string list" where
  "detect_numeric_cols df cols numeric_cols =
     foldl (add_mapped_column df cols) numeric_cols [''plz'', ''egid'', ''easting'', ''northing'']"

definition dtype_row :: "(rat \<Rightarrow> string) \<Rightarrow> dataframe \<Rightarrow> string \<Rightarrow> nat \<Rightarrow> cell list
    \<Rightarrow> py_exn + validation_error list" where
  "dtype_row float_repr df col idx row =
     (let v = row_get df row col
      in if pd_isna v \<or> strip (py_str float_repr v) = [] then Inr []
         else (case py_float v of
                 Inr f \<Rightarrow> Inr []
               | Inl ex \<Rightarrow>
                   if ex = ValueError \<or> ex = TypeError
                   then Inr [finding DataTypeConsistencyRule idx col
                          (''Nicht-numerischer Wert in numerischer Spalte: ''
                             @ quote (py_str float_repr v)) v None]
                   else Inl ex))"

definition dtype_column :: "(rat \<Rightarrow> string) \<Rightarrow> dataframe \<Rightarrow> string
    \<Rightarrow> py_exn + validation_error list" where
  "dtype_column float_repr df col =
     (if col \<notin> set (df_columns df) then Inr []
      else iterrows (dtype_row float_repr df col) 0 (df_rows df))"

text \<open>
  \<^verbatim>\<open>numeric_cols\<close> is the list object stored under \<^verbatim>\<open>options['numeric_columns']\<close> when the
  key is present, so the appends of the first loop are appends to the caller's list; when
  the key is absent it is a fresh list and the configuration stays as it was.
\<close>

definition DataTypeConsistencyRule_validate :: "(rat \<Rightarrow> string) \<Rightarrow> dataframe \<Rightarrow> config
    \<Rightarrow> (py_exn + validation_error list) \<times> config" where
  "DataTypeConsistencyRule_validate float_repr df cfg =
     (case numeric_columns (opts cfg) of
        None \<Rightarrow>
          (for_each (dtype_column float_repr df) (detect_numeric_cols df (columns cfg) []), cfg)
      | Some caller_list \<Rightarrow>
          (let numeric_cols = detect_numeric_cols df (columns cfg) caller_list
           in (for_each (dtype_column float_repr df) numeric_cols,
               cfg\<lparr>opts := (opts cfg)\<lparr>numeric_columns := Some numeric_cols\<rparr>\<rparr>)))"

definition DataTypeConsistencyRule_obj :: "(rat \<Rightarrow> string) \<Rightarrow> rule" where
  "DataTypeConsistencyRule_obj float_repr =
     \<lparr>metadata = class_metadata DataTypeConsistencyRule,
      validate = DataTypeConsistencyRule_validate float_repr\<rparr>"

section \<open>Rule registry\<close>

text \<open>A dict in insertion order: assigning to an existing key keeps the key's position.\<close>

definition dict_set :: "('k \<times> 'v) list \<Rightarrow> 'k \<Rightarrow> 'v \<Rightarrow> ('k \<times> 'v) list" where
  "dict_set d k v =
     (if k \<in> fst ` set d then map (\<lambda>(k', v'). if k' = k then (k', v) else (k', v')) d
      else d @ [(k, v)])"

type_synonym 'r rule_registry = "(string \<times> 'r) list"

definition register :: "('r \<Rightarrow> rule_metadata) \<Rightarrow> 'r rule_registry \<Rightarrow> 'r \<Rightarrow> 'r rule_registry" where
  "register meta reg r = dict_set reg (md_id (meta r)) r"

definition get_rule :: "'r rule_registry \<Rightarrow> string \<Rightarrow> 'r option" where
  "get_rule reg rid = map_of reg rid"

definition get_all_rules :: "'r rule_registry \<Rightarrow> 'r list" where
  "get_all_rules reg = map snd reg"

definition get_rule_ids :: "'r rule_registry \<Rightarrow> string list" where
  "get_rule_ids reg = map fst reg"

definition ALL_RULES :: "rule_class list" where
  "ALL_RULES =
     [RequiredFieldsRule, PLZFormatRule, CantonValidationRule, StreetFormatRule,
      CoordinatePresenceRule, SwissBoundsRule, CoordinatePrecisionRule,
      EGIDFormatRule, EGIDUniquenessRule, EGIDPresenceRule,
      DuplicateRowsRule, EmptyRowsRule, DataTypeConsistencyRule, EncodingIssuesRule]"

definition create_default_registry :: "rule_class rule_registry" where
  "create_default_registry = foldl (register class_metadata) [] ALL_RULES"

section \<open>Validation result\<close>

record validation_result =
  total_rows :: int
  errors :: "validation_error list"
  rules_executed :: "string list"
  rules_skipped :: "string list"

definition passed_rows :: "validation_result \<Rightarrow> int" where
  "passed_rows res =
     total_rows res
       - int (length (remdups (map row_index (filter (\<lambda>e. severity e = ERROR) (errors res)))))"

text \<open>\<^verbatim>\<open>s.split(sep)\<close> for a separator of one character.\<close>

fun split_on :: "char \<Rightarrow> string \<Rightarrow> string list" where
  "split_on sep [] = [[]]"
| "split_on sep (c # cs) =
     (if c = sep then [] # split_on sep cs
      else (c # hd (split_on sep cs)) # tl (split_on sep cs))"

definition cat_map :: "(string \<times> string) list" where
  "cat_map = [(''ADDR'', ''address''), (''COORD'', ''coordinates''), (''EGID'', ''egid''),
              (''GEN'', ''general''), (''CUSTOM'', ''custom'')]"

text \<open>\<^verbatim>\<open>counts[cat] += 1\<close> on a \<^verbatim>\<open>defaultdict(int)\<close>.\<close>

definition dict_incr :: "(string \<times> nat) list \<Rightarrow> string \<Rightarrow> (string \<times> nat) list" where
  "dict_incr counts k = dict_set counts k (dict_get counts k 0 + 1)"

definition count_category :: "(string \<times> nat) list \<Rightarrow> validation_error \<Rightarrow> (string \<times> nat) list" where
  "count_category counts e =
     (let parts = split_on CHR ''-'' (rule_id e)
      in if length parts \<ge> 2 then dict_incr counts (dict_get cat_map (parts ! 1) ''general'')
         else counts)"

definition get_errors_by_category :: "validation_result \<Rightarrow> (string \<times> nat) list" where
  "get_errors_by_category res = foldl count_category [] (errors res)"

text \<open>
  \<^verbatim>\<open>a / b\<close> for two integers: the quotient rounded to binary64; a quotient too large for
  a float raises \<^verbatim>\<open>OverflowError\<close>.
\<close>

definition int_true_div :: "int \<Rightarrow> int \<Rightarrow> py_exn + pyfloat" where
  "int_true_div a b =
     (if b = 0 then Inl ZeroDivisionError
      else if float_overflows (of_int a / of_int b) then Inl OverflowError
      else Inr (Finite (binary64 (of_int a / of_int b))))"

definition fl_sign :: "pyfloat \<Rightarrow> int" where
  "fl_sign x =
     (case x of Finite a \<Rightarrow> (if a > 0 then 1 else if a < 0 then - 1 else 0)
      | PosInf \<Rightarrow> 1 | NegInf \<Rightarrow> - 1 | NaN \<Rightarrow> 0)"

text \<open>\<^verbatim>\<open>x * y\<close> for two floats: the product rounded to binary64, overflowing to infinity.\<close>

definition fl_mul :: "pyfloat \<Rightarrow> pyfloat \<Rightarrow> pyfloat" where
  "fl_mul x y =
     (case (x, y) of
        (Finite a, Finite b) \<Rightarrow> float_of_rat (a * b)
      | _ \<Rightarrow> if x = NaN \<or> y = NaN \<or> fl_sign x * fl_sign y = 0 then NaN
             else if fl_sign x * fl_sign y > 0 then PosInf else NegInf)"

text \<open>
  \<^verbatim>\<open>round(x, 1)\<close> for a float: the value of \<open>x\<close> rounded to the nearest multiple of one
  tenth, a tie going to the even one, and that decimal converted back to binary64. An
  infinity or NaN is returned as it is.
\<close>

definition py_round1 :: "pyfloat \<Rightarrow> py_exn + pyfloat" where
  "py_round1 x =
     (case x of
        Finite a \<Rightarrow>
          (let d = of_int (round_half_even (a * 10)) / 10
           in if float_overflows d then Inl OverflowError else Inr (Finite (binary64 d)))
      | _ \<Rightarrow> Inr x)"

text \<open>
  The \<^verbatim>\<open>pass_rate\<close> entry of \<^verbatim>\<open>to_dict\<close>; for an empty dataset it is the integer 100,
  here the float of the same value.
\<close>

definition pass_rate :: "validation_result \<Rightarrow> py_exn + pyfloat" where
  "pass_rate res =
     (if total_rows res > 0
      then (case int_true_div (passed_rows res) (total_rows res) of
              Inl ex \<Rightarrow> Inl ex
            | Inr q \<Rightarrow> py_round1 (fl_mul q (Finite 100)))
      else Inr (Finite 100))"

section \<open>Validation engine\<close>

text \<open>
  \<^verbatim>\<open>if rule_ids:\<close> holds for a non-empty list only: the rules of the ids that the registry
  knows, in the order of the ids; otherwise every registered rule.
\<close>

definition select_rules :: "rule rule_registry \<Rightarrow> string list option \<Rightarrow> rule list" where
  "select_rules reg rule_ids =
     (case rule_ids of
        None \<Rightarrow> get_all_rules reg
      | Some ids \<Rightarrow> if ids \<noteq> [] then List.map_filter (get_rule reg) ids else get_all_rules reg)"

text \<open>
  One turn of the loop over the rules. The state is the result under construction and the
  configuration object, which a rule may have changed. The message printed for a rule that
  raised is not part of the model.
\<close>

definition run_rule :: "dataframe \<Rightarrow> validation_result \<times> config \<Rightarrow> rule \<Rightarrow> validation_result \<times> config" where
  "run_rule df st r =
     (case st of (res, cfg) \<Rightarrow>
        if is_applicable r df cfg
        then (case validate r df cfg of
                (Inr errs, cfg') \<Rightarrow>
                  (res\<lparr>errors := errors res @ errs,
                       rules_executed := rules_executed res @ [md_id (metadata r)]\<rparr>, cfg')
              | (Inl ex, cfg') \<Rightarrow>
                  (res\<lparr>rules_skipped := rules_skipped res @ [md_id (metadata r)]\<rparr>, cfg'))
        else (res\<lparr>rules_skipped := rules_skipped res @ [md_id (metadata r)]\<rparr>, cfg))"

definition new_result :: "dataframe \<Rightarrow> validation_result" where
  "new_result df =
     \<lparr>total_rows = int (df_len df), errors = [], rules_executed = [], rules_skipped = []\<rparr>"

definition run_rules :: "dataframe \<Rightarrow> validation_result \<times> config \<Rightarrow> rule list \<Rightarrow> validation_result \<times> config" where
  "run_rules df st rules = foldl (run_rule df) st rules"

text \<open>
  \<^verbatim>\<open>ValidationEngine.validate\<close>: the result it returns, together with the caller's
  configuration object as the run leaves it.
\<close>

definition engine_run :: "rule rule_registry \<Rightarrow> dataframe \<Rightarrow> config \<Rightarrow> string list option
    \<Rightarrow> validation_result \<times> config" where
  "engine_run reg df cfg rule_ids = run_rules df (new_result df, cfg) (select_rules reg rule_ids)"

definition engine_validate :: "rule rule_registry \<Rightarrow> dataframe \<Rightarrow> config \<Rightarrow> string list option
    \<Rightarrow> validation_result" where
  "engine_validate reg df cfg rule_ids = fst (engine_run reg df cfg rule_ids)"

section \<open>Example data\<close>

text \<open>
  The rendering of the floats that are a multiple of one tenth and below \<open>10^16\<close> in
  magnitude, as Python prints them (\<^verbatim>\<open>7.5\<close>, \<^verbatim>\<open>1000000.0\<close>); the closed examples, whose
  floats are of this kind, take it for \<open>float_repr\<close>.
\<close>

definition repr_tenths :: "rat \<Rightarrow> string" where
  "repr_tenths q =
     (let t = \<lfloor>\<bar>q\<bar> * 10\<rfloor>
      in (if q < 0 then ''-'' else []) @ str_digits (t div 10) @ ''.'' @ str_digits (t mod 10))"

definition empty_options :: options where
  "empty_options = \<lparr>coordinate_system = None, duplicate_key_columns = None, numeric_columns = None\<rparr>"

definition empty_config :: config where
  "empty_config = \<lparr>columns = [], opts = empty_options\<rparr>"

text \<open>A rule without required columns whose \<^verbatim>\<open>validate\<close> raises on every call.\<close>

definition raising_rule :: "string \<Rightarrow> rule" where
  "raising_rule rid =
     \<lparr>metadata = \<lparr>md_id = rid, md_name = ''Raising'', md_name_de = ''Raising'',
                   md_category = CUSTOM, md_severity = ERROR, md_required_columns = []\<rparr>,
      validate = (\<lambda>df cfg. (Inl (Exception ''boom''), cfg))\<rparr>"

definition plz_df :: dataframe where
  "plz_df = \<lparr>df_columns = [''plz''],
            df_rows = [[StrV ''8001''], [StrV ''800''], [StrV ''ABCD''], [StrV ''12000''],
                       [StrV ''8001.0'']]\<rparr>"

definition coord_df :: dataframe where
  "coord_df = \<lparr>df_columns = [''easting'', ''northing''],
              df_rows = [[IntV 2600000, IntV 1200000], [IntV 1000000, IntV 500000],
                         [FloatV (Finite (75 / 10)), FloatV (Finite (469 / 10))]]\<rparr>"

definition egid_df :: dataframe where
  "egid_df = \<lparr>df_columns = [''egid''], df_rows = [[IntV 123], [IntV 123], [IntV 456]]\<rparr>"

text \<open>
  The registry of the fault-isolation example: a rule that raises, registered before the
  postal code rule.
\<close>

definition example_registry :: "rule rule_registry" where
  "example_registry =
     foldl (register metadata) [] [raising_rule ''R-BOOM'', PLZFormatRule_obj repr_tenths]"

text \<open>The findings of the postal code rule on \<open>plz_df\<close>.\<close>

definition plz_findings :: "validation_error list" where
  "plz_findings =
     [plz_error 1 ''plz'' (StrV ''800'') ''PLZ muss 4-stellig sein: '800' (3 Stellen)'',
      plz_error 2 ''plz'' (StrV ''ABCD'') (''PLZ muss numerisch sein: '' @ quote ''ABCD''),
      plz_error 3 ''plz'' (StrV ''12000'') ''PLZ muss 4-stellig sein: '12000' (5 Stellen)'']"

text \<open>Datasets of one row, for the single values of the examples.\<close>

definition plz_single :: "string \<Rightarrow> dataframe" where
  "plz_single v = \<lparr>df_columns = [''plz''], df_rows = [[StrV v]]\<rparr>"

definition coord_single :: "cell \<Rightarrow> cell \<Rightarrow> dataframe" where
  "coord_single e n = \<lparr>df_columns = [''easting'', ''northing''], df_rows = [[e, n]]\<rparr>"

text \<open>
  The finding of the bounds rule for the pair (1000000, 500000) when the coordinate system
  is to be detected, and a configuration that forces LV95.
\<close>

definition undetected_finding :: "(rat \<Rightarrow> string) \<Rightarrow> nat \<Rightarrow> validation_error" where
  "undetected_finding float_repr idx =
     finding SwissBoundsRule idx ''easting/northing''
       (''Koordinatensystem nicht erkennbar: E='' @ float_repr 1000000 @ '', N='' @ float_repr 500000)
       (StrV (''E='' @ float_repr 1000000 @ '', N='' @ float_repr 500000)) None"

definition lv95_config :: config where
  "lv95_config = empty_config\<lparr>opts := empty_options\<lparr>coordinate_system := Some ''LV95''\<rparr>\<rparr>"

text \<open>A result with two findings on the same row of three.\<close>

definition one_error_of_three :: validation_result where
  "one_error_of_three =
     \<lparr>total_rows = 3,
      errors = [plz_error 1 ''plz'' (StrV ''ABCD'') (''PLZ muss numerisch sein: '' @ quote ''ABCD''),
                plz_error 1 ''plz'' (StrV ''ABCD'') (''PLZ muss numerisch sein: '' @ quote ''ABCD'')],
      rules_executed = [''R-ADDR-02''], rules_skipped = []\<rparr>"

text \<open>
  A result with one finding of a rule id whose second segment is \<^verbatim>\<open>CUSTOM\<close> and one of a
  rule id without a dash.
\<close>

definition custom_and_plain :: validation_result where
  "custom_and_plain =
     \<lparr>total_rows = 2,
      errors = [(finding PLZFormatRule 0 ''a'' ''m'' PyNone None)\<lparr>rule_id := ''R-CUSTOM-01''\<rparr>,
                (finding PLZFormatRule 1 ''a'' ''m'' PyNone None)\<lparr>rule_id := ''X''\<rparr>],
      rules_executed = [], rules_skipped = []\<rparr>"

text \<open>
  A dataset whose postal code column is mapped, a configuration that carries the caller's
  (empty) list of numeric columns, and a registry with the data type rule.
\<close>

definition mapped_plz_df :: dataframe where
  "mapped_plz_df = \<lparr>df_columns = [''PLZ''], df_rows = [[IntV 8001]]\<rparr>"

definition numeric_config :: config where
  "numeric_config =
     \<lparr>columns = [(''plz'', ''PLZ'')], opts = empty_options\<lparr>numeric_columns := Some []\<rparr>\<rparr>"

definition dtype_registry :: "rule rule_registry" where
  "dtype_registry = foldl (register metadata) [] [DataTypeConsistencyRule_obj repr_tenths]"

text \<open>
  A dataset whose postal code column is named in upper case, with no column mapping, and a
  registry with the postal code rule.
\<close>

definition plz_registry :: "rule rule_registry" where
  "plz_registry = foldl (register metadata) [] [PLZFormatRule_obj repr_tenths]"

definition upper_plz_df :: dataframe where
  "upper_plz_df = \<lparr>df_columns = [''PLZ''], df_rows = [[StrV ''8001'']]\<rparr>"

text \<open>
  Two results whose exact pass rates, 63.75 and 18.75, lie halfway between two tenths: 29
  error rows of 80, and 13 of 16.
\<close>

definition fifty_one_of_eighty :: validation_result where
  "fifty_one_of_eighty =
     \<lparr>total_rows = 80,
      errors = map (\<lambda>i. finding PLZFormatRule i ''plz'' ''PLZ fehlt'' PyNone None) [0..<29],
      rules_executed = [''R-ADDR-02''], rules_skipped = []\<rparr>"

definition three_of_sixteen :: validation_result where
  "three_of_sixteen =
     \<lparr>total_rows = 16,
      errors = map (\<lambda>i. finding PLZFormatRule i ''plz'' ''PLZ fehlt'' PyNone None) [0..<13],
      rules_executed = [''R-ADDR-02''], rules_skipped = []\<rparr>"

text \<open>A registry of three rules: one that raises, the postal code rule and the EGID rule.\<close>

definition three_rule_registry :: "rule rule_registry" where
  "three_rule_registry =
     foldl (register metadata) []
       [raising_rule ''R-BOOM'', PLZFormatRule_obj repr_tenths, EGIDUniquenessRule_obj repr_tenths]"

section \<open>Auxiliary notions for the proofs\<close>

text \<open>The result \<open>res\<close> with the findings and the rule ids of \<open>d\<close> appended.\<close>

definition extend_result :: "validation_result \<Rightarrow> validation_result \<Rightarrow> validation_result" where
  "extend_result res d =
     res\<lparr>errors := errors res @ errors d,
         rules_executed := rules_executed res @ rules_executed d,
         rules_skipped := rules_skipped res @ rules_skipped d\<rparr>"

text \<open>
  The category table as the tally is stated: the second dash-separated segment of a rule
  id, the category name it stands for, and the findings that are tallied at all.
\<close>

definition second_segment :: "string \<Rightarrow> string" where
  "second_segment rid = split_on CHR ''-'' rid ! 1"

definition category_name :: "string \<Rightarrow> string" where
  "category_name seg =
     (if seg = ''ADDR'' then ''address''
      else if seg = ''COORD'' then ''coordinates''
      else if seg = ''EGID'' then ''egid''
      else if seg = ''CUSTOM'' then ''custom''
      else ''general'')"

definition tallied :: "validation_error \<Rightarrow> bool" where
  "tallied e \<longleftrightarrow> CHR ''-'' \<in> set (rule_id e)"

section \<open>The overflow bound of binary64\<close>

lemma float_overflow_bound_eq: "float_overflow_bound = 2 ^ 1024 - 2 ^ 970"
  by (simp add: float_overflow_bound_def)

section \<open>Rounding to binary64\<close>

text \<open>The definition on some values, among them ties in both directions.\<close>

lemma binary64_values:
  "binary64 (1 / 10) = 3602879701896397 / 36028797018963968"
  "binary64 (637 / 10) = 4482489004117197 / 70368744177664"
  "binary64 (458 / 10) = 3222888483337011 / 70368744177664"
  "binary64 (59 / 10) = 3321404725185741 / 562949953421312"
  "binary64 (- 3 / 16) = - 3 / 16"
  "binary64 (2 ^ 53 + 1) = 2 ^ 53"
  "binary64 (2 ^ 53 + 3) = 2 ^ 53 + 4"
  by code_simp+

text \<open>Parsing rounds: a literal just below 1000 is the float 1000.\<close>

lemma parse_rounds:
  "py_float_str ''999.99999999999999999999'' = Inr (Finite 1000)"
  "plz_normalize ''999.99999999999999999999'' = Inr ''1000''"
  by code_simp+

lemma round_half_even_close: "\<bar>of_int (round_half_even q) - q\<bar> \<le> 1 / 2"
proof -
  have lo: "of_int \<lfloor>q\<rfloor> \<le> q" and hi: "q < of_int \<lfloor>q\<rfloor> + 1"
    by linarith+
  show ?thesis
    using lo hi by (auto simp: round_half_even_def Let_def abs_le_iff)
qed

lemma pow2_powi: "pow2 k = 2 powi k"
  by (simp add: pow2_def power_int_def power_one_over)

lemma pow2_pos: "0 < pow2 k"
  by (simp add: pow2_powi)

lemma pow2_strict_mono: "k < l \<Longrightarrow> pow2 k < pow2 l"
  by (simp add: pow2_powi power_int_strict_increasing)

lemma pow2_mono: "k \<le> l \<Longrightarrow> pow2 k \<le> pow2 l"
  by (simp add: pow2_powi power_int_increasing)

lemma pow2_le_imp_le:
  assumes "pow2 k \<le> pow2 l"
  shows "k \<le> l"
proof (rule ccontr)
  assume "\<not> k \<le> l"
  then have "pow2 l < pow2 k" by (intro pow2_strict_mono) simp
  with assms show False by simp
qed

lemma pow2_half: "pow2 (k - 1) = pow2 k / 2"
  by (simp add: pow2_powi power_int_diff)

lemma pow2_diff: "pow2 (k - l) = pow2 k / pow2 l"
  by (simp add: pow2_powi power_int_diff)

lemma pow2_nonneg: "0 \<le> k \<Longrightarrow> pow2 k = of_int (2 ^ nat k)"
  by (simp add: pow2_def)

lemma bit_length_0: "bit_length 0 = 0"
  by (subst bit_length.simps) simp

lemma bit_length_pos: "0 < n \<Longrightarrow> bit_length n = 1 + bit_length (n div 2)"
  by (subst bit_length.simps) simp

lemma bit_length_bounds:
  "0 < n \<Longrightarrow> 1 \<le> bit_length n \<and> 2 ^ nat (bit_length n - 1) \<le> n \<and> n < 2 ^ nat (bit_length n)"
proof (induction n rule: bit_length.induct)
  case (1 n)
  have bl: "bit_length n = 1 + bit_length (n div 2)"
    using "1.prems" by (rule bit_length_pos)
  show ?case
  proof (cases "n div 2 = 0")
    case True
    then have "n = 1" using "1.prems" by presburger
    then show ?thesis using bl by (simp add: bit_length_0)
  next
    case False
    then have pos: "0 < n div 2" using "1.prems" by presburger
    have notle: "\<not> n \<le> 0" using "1.prems" by simp
    note ih = "1.IH" [OF notle pos]
    define b where "b = bit_length (n div 2)"
    have b1: "1 \<le> b" and lo: "2 ^ nat (b - 1) \<le> n div 2" and hi: "n div 2 < 2 ^ nat b"
      using ih by (auto simp: b_def)
    have bn: "bit_length n = 1 + b" using bl by (simp add: b_def)
    have e1: "nat (1 + b - 1) = Suc (nat (b - 1))"
      using b1 by simp
    have e2: "nat (1 + b) = Suc (nat b)"
      using b1 by simp
    have e3: "(2::int) ^ nat b = 2 * 2 ^ nat (b - 1)"
      using b1 by (metis e1 add_diff_cancel_left' power_Suc)
    have d1: "2 * (n div 2) \<le> n" and d2: "n \<le> 2 * (n div 2) + 1"
      by presburger+
    have c1: "1 \<le> bit_length n" using b1 bn by simp
    have c2: "2 ^ nat (bit_length n - 1) \<le> n"
    proof -
      have "(2::int) ^ nat (bit_length n - 1) = 2 * 2 ^ nat (b - 1)"
        unfolding bn e1 by simp
      also have "\<dots> \<le> 2 * (n div 2)" using lo by simp
      finally show ?thesis using d1 by simp
    qed
    have c3: "n < 2 ^ nat (bit_length n)"
    proof -
      have "n div 2 + 1 \<le> 2 ^ nat b" using hi by simp
      then have "2 * (n div 2) + 2 \<le> 2 * 2 ^ nat b" by simp
      moreover have "(2::int) ^ nat (bit_length n) = 2 * 2 ^ nat b"
        unfolding bn e2 by simp
      ultimately show ?thesis using d2 by linarith
    qed
    show ?thesis using c1 c2 c3 by blast
  qed
qed

lemma floor_log2_le:
  assumes "0 < a"
  shows "pow2 (floor_log2 a) \<le> a"
proof -
  obtain n d where nd: "quotient_of a = (n, d)"
    by (cases "quotient_of a")
  have dpos: "0 < d" using quotient_of_denom_pos [OF nd] .
  have a_eq: "a = of_int n / of_int d" using quotient_of_div [OF nd] .
  have npos: "0 < n"
    using assms dpos by (simp add: a_eq zero_less_divide_iff)
  define g where "g = bit_length n - bit_length d"
  show ?thesis
  proof (cases "pow2 g \<le> a")
    case True
    then show ?thesis by (simp add: floor_log2_def nd g_def)
  next
    case False
    then have fl: "floor_log2 a = g - 1"
      by (simp add: floor_log2_def nd g_def)
    have bn: "1 \<le> bit_length n" "2 ^ nat (bit_length n - 1) \<le> n"
      using bit_length_bounds [OF npos] by auto
    have bd: "1 \<le> bit_length d" "d < 2 ^ nat (bit_length d)"
      using bit_length_bounds [OF dpos] by auto
    have n_lo: "pow2 (bit_length n - 1) \<le> of_int n"
    proof -
      have "(of_int (2 ^ nat (bit_length n - 1)) :: rat) \<le> of_int n"
        using bn(2) by (simp only: of_int_le_iff)
      moreover have "pow2 (bit_length n - 1) = of_int (2 ^ nat (bit_length n - 1))"
        using bn(1) by (intro pow2_nonneg) simp
      ultimately show ?thesis by simp
    qed
    have d_hi: "of_int d \<le> pow2 (bit_length d)"
    proof -
      have "d \<le> 2 ^ nat (bit_length d)" using bd(2) by simp
      then have "(of_int d :: rat) \<le> of_int (2 ^ nat (bit_length d))"
        by (simp only: of_int_le_iff)
      moreover have "pow2 (bit_length d) = of_int (2 ^ nat (bit_length d))"
        using bd(1) by (intro pow2_nonneg) simp
      ultimately show ?thesis by simp
    qed
    have dq: "(0::rat) < of_int d" using dpos by simp
    have "pow2 (g - 1) = pow2 (bit_length n - 1) / pow2 (bit_length d)"
      unfolding g_def using pow2_diff [of "bit_length n - 1" "bit_length d"]
      by (simp add: algebra_simps)
    also have "\<dots> \<le> of_int n / pow2 (bit_length d)"
      using n_lo pow2_pos [of "bit_length d"] by (simp add: divide_right_mono)
    also have "\<dots> \<le> of_int n / of_int d"
      using d_hi dq npos by (intro divide_left_mono) simp_all
    finally have "pow2 (g - 1) \<le> a" using a_eq by simp
    then show ?thesis unfolding fl .
  qed
qed

lemma binary64_error:
  assumes "\<bar>q\<bar> \<le> pow2 b" and "- 1022 \<le> b"
  shows "\<bar>binary64 q - q\<bar> \<le> pow2 (b - 53)"
proof (cases "q = 0")
  case True
  then show ?thesis using pow2_pos [of "b - 53"] by (simp add: binary64_def)
next
  case False
  define a where "a = \<bar>q\<bar>"
  define e where "e = max (floor_log2 a) (- 1022)"
  define ulp where "ulp = pow2 (e - 52)"
  define m where "m = round_half_even (a / ulp)"
  define r where "r = of_int m * ulp"
  have apos: "0 < a" using False by (simp add: a_def)
  have upos: "0 < ulp" by (simp add: ulp_def pow2_pos)
  have "pow2 (floor_log2 a) \<le> pow2 b"
    using floor_log2_le [OF apos] assms(1) by (simp add: a_def)
  then have "floor_log2 a \<le> b" by (rule pow2_le_imp_le)
  then have e_le: "e \<le> b" using assms(2) by (simp add: e_def)
  have close: "\<bar>of_int m - a / ulp\<bar> \<le> 1 / 2"
    unfolding m_def by (rule round_half_even_close)
  have "r - a = (of_int m - a / ulp) * ulp"
    using upos by (simp add: r_def left_diff_distrib)
  then have "\<bar>r - a\<bar> = \<bar>of_int m - a / ulp\<bar> * ulp"
    using upos by (simp add: abs_mult)
  also have "\<dots> \<le> 1 / 2 * ulp"
    using close upos by (intro mult_right_mono) simp_all
  finally have ra: "\<bar>r - a\<bar> \<le> ulp / 2" by simp
  have "ulp / 2 = pow2 (e - 53)"
    using pow2_half [of "e - 52"] by (simp add: ulp_def)
  also have "\<dots> \<le> pow2 (b - 53)"
    using e_le by (intro pow2_mono) simp
  finally have bound: "\<bar>r - a\<bar> \<le> pow2 (b - 53)" using ra by simp
  have b64: "binary64 q = (if q < 0 then - r else r)"
    using False by (simp add: binary64_def Let_def a_def e_def ulp_def r_def m_def)
  show ?thesis
  proof (cases "q < 0")
    case True
    then have "binary64 q - q = - (r - a)" by (simp add: b64 a_def)
    then show ?thesis using bound by simp
  next
    case False
    then have "binary64 q - q = r - a" by (simp add: b64 a_def)
    then show ?thesis using bound by simp
  qed
qed

text \<open>The identity fields of the findings of the examples.\<close>

lemma finding_rows:
  "map row_index plz_findings = [1, 2, 3]
   \<and> map column plz_findings = [''plz'', ''plz'', ''plz'']
   \<and> map rule_id plz_findings = [''R-ADDR-02'', ''R-ADDR-02'', ''R-ADDR-02'']
   \<and> map severity plz_findings = [ERROR, ERROR, ERROR]
   \<and> row_index (undetected_finding float_repr 1) = 1
   \<and> column (undetected_finding float_repr 1) = ''easting/northing''
   \<and> rule_id (undetected_finding float_repr 1) = ''R-COORD-02''
   \<and> severity (undetected_finding float_repr 1) = ERROR"
  by code_simp

section \<open>The engine isolates a failing rule\<close>

lemma extend_result_assoc:
  "extend_result (extend_result a b) c = extend_result a (extend_result b c)"
  by (simp add: extend_result_def)

lemma run_rule_extend:
  "run_rule df (res, cfg) r =
     (extend_result res (fst (run_rule df (new_result df, cfg) r)),
      snd (run_rule df (new_result df, cfg) r))"
  by (simp add: run_rule_def extend_result_def new_result_def split: prod.splits sum.splits)

lemma run_rules_Cons:
  "run_rules df st (r # rs) = run_rules df (run_rule df st r) rs"
  by (simp add: run_rules_def)

lemma run_rules_append:
  "run_rules df st (xs @ ys) = run_rules df (run_rules df st xs) ys"
  by (simp add: run_rules_def)

lemma run_rules_extend:
  "run_rules df (res, cfg) rs =
     (extend_result res (fst (run_rules df (new_result df, cfg) rs)),
      snd (run_rules df (new_result df, cfg) rs))"
proof (induction rs arbitrary: res cfg)
  case Nil
  show ?case by (simp add: run_rules_def extend_result_def new_result_def)
next
  case (Cons r rs)
  obtain d c1 where d: "run_rule df (new_result df, cfg) r = (d, c1)"
    by (cases "run_rule df (new_result df, cfg) r")
  have step: "run_rule df (res, cfg) r = (extend_result res d, c1)"
    using run_rule_extend [of df res cfg r] d by simp
  have lhs: "run_rules df (res, cfg) (r # rs) =
      (extend_result (extend_result res d) (fst (run_rules df (new_result df, c1) rs)),
       snd (run_rules df (new_result df, c1) rs))"
    using Cons.IH [of "extend_result res d" c1] step by (simp add: run_rules_Cons)
  have rhs: "run_rules df (new_result df, cfg) (r # rs) =
      (extend_result d (fst (run_rules df (new_result df, c1) rs)),
       snd (run_rules df (new_result df, c1) rs))"
    using Cons.IH [of d c1] d by (simp add: run_rules_Cons)
  show ?case
    by (simp add: lhs rhs extend_result_assoc)
qed

lemma run_rule_executed_subset:
  "set (rules_executed (fst (run_rule df (new_result df, cfg) r))) \<subseteq> {md_id (metadata r)}"
  by (simp add: run_rule_def new_result_def split: prod.splits sum.splits)

lemma run_rules_executed_subset:
  "set (rules_executed (fst (run_rules df (new_result df, cfg) rs)))
     \<subseteq> (\<lambda>x. md_id (metadata x)) ` set rs"
proof (induction rs arbitrary: cfg)
  case Nil
  show ?case by (simp add: run_rules_def new_result_def)
next
  case (Cons r rs)
  obtain d c1 where d: "run_rule df (new_result df, cfg) r = (d, c1)"
    by (cases "run_rule df (new_result df, cfg) r")
  have "run_rules df (new_result df, cfg) (r # rs) =
      (extend_result d (fst (run_rules df (new_result df, c1) rs)),
       snd (run_rules df (new_result df, c1) rs))"
    using run_rules_extend [of df d c1 rs] d by (simp add: run_rules_Cons)
  moreover have "set (rules_executed d) \<subseteq> {md_id (metadata r)}"
    using run_rule_executed_subset [of df cfg r] d by simp
  ultimately show ?case
    using Cons.IH [of c1] by (auto simp: extend_result_def)
qed

lemma example_registry_rules:
  "select_rules example_registry None = [] @ raising_rule ''R-BOOM'' # [PLZFormatRule_obj repr_tenths]"
  by (simp add: select_rules_def get_all_rules_def example_registry_def register_def dict_set_def
      raising_rule_def PLZFormatRule_obj_def)

lemma plz_df_findings:
  "fst (PLZFormatRule_validate float_repr plz_df empty_config) = Inr plz_findings"
  by code_simp

text \<open>
  Claim C1. Whenever the \<^verbatim>\<open>validate\<close> of a rule \<open>r\<close> of the run raises, the engine still
  returns a result: the id of \<open>r\<close> is in \<^verbatim>\<open>rules_skipped\<close>; the findings of the result are
  those collected before \<open>r\<close> followed by those of the rules after \<open>r\<close>, so \<open>r\<close> contributes
  none and the later ones are all present; this turn adds nothing to \<^verbatim>\<open>rules_executed\<close>,
  and when the rules of the run have distinct ids the id of \<open>r\<close> is not in it at all.
\<close>

theorem engine_fault_isolation:
  assumes sel: "select_rules reg rule_ids = rs1 @ r # rs2"
    and app: "is_applicable r df (snd (run_rules df (new_result df, cfg) rs1))"
    and raises: "validate r df (snd (run_rules df (new_result df, cfg) rs1)) = (Inl ex, cfg')"
  shows "md_id (metadata r) \<in> set (rules_skipped (engine_validate reg df cfg rule_ids))
    \<and> errors (engine_validate reg df cfg rule_ids) =
        errors (fst (run_rules df (new_result df, cfg) rs1))
          @ errors (fst (run_rules df (new_result df, cfg') rs2))
    \<and> rules_executed (engine_validate reg df cfg rule_ids) =
        rules_executed (fst (run_rules df (new_result df, cfg) rs1))
          @ rules_executed (fst (run_rules df (new_result df, cfg') rs2))
    \<and> (distinct (map (\<lambda>x. md_id (metadata x)) (select_rules reg rule_ids))
         \<longrightarrow> md_id (metadata r) \<notin> set (rules_executed (engine_validate reg df cfg rule_ids)))"
proof -
  obtain res1 cfg1 where st1: "run_rules df (new_result df, cfg) rs1 = (res1, cfg1)"
    by (cases "run_rules df (new_result df, cfg) rs1")
  let ?skip = "res1\<lparr>rules_skipped := rules_skipped res1 @ [md_id (metadata r)]\<rparr>"
  let ?D = "run_rules df (new_result df, cfg') rs2"
  have step: "run_rule df (res1, cfg1) r = (?skip, cfg')"
    using app raises st1 by (simp add: run_rule_def)
  have "engine_run reg df cfg rule_ids = run_rules df (run_rule df (res1, cfg1) r) rs2"
    by (simp add: engine_run_def sel run_rules_append run_rules_Cons st1)
  also have "\<dots> = (extend_result ?skip (fst ?D), snd ?D)"
    using run_rules_extend [of df ?skip cfg' rs2] step by simp
  finally have fin: "engine_validate reg df cfg rule_ids = extend_result ?skip (fst ?D)"
    by (simp add: engine_validate_def)
  have skipped: "md_id (metadata r) \<in> set (rules_skipped (engine_validate reg df cfg rule_ids))"
    by (simp add: fin extend_result_def)
  have errs: "errors (engine_validate reg df cfg rule_ids) = errors res1 @ errors (fst ?D)"
    by (simp add: fin extend_result_def)
  have exec: "rules_executed (engine_validate reg df cfg rule_ids)
      = rules_executed res1 @ rules_executed (fst ?D)"
    by (simp add: fin extend_result_def)
  have not_exec: "md_id (metadata r) \<notin> set (rules_executed (engine_validate reg df cfg rule_ids))"
    if dist: "distinct (map (\<lambda>x. md_id (metadata x)) (select_rules reg rule_ids))"
  proof -
    have "md_id (metadata r) \<notin> (\<lambda>x. md_id (metadata x)) ` set rs1"
      and "md_id (metadata r) \<notin> (\<lambda>x. md_id (metadata x)) ` set rs2"
      using dist by (auto simp: sel)
    moreover have "set (rules_executed res1) \<subseteq> (\<lambda>x. md_id (metadata x)) ` set rs1"
      using run_rules_executed_subset [of df cfg rs1] st1 by simp
    moreover have "set (rules_executed (fst ?D)) \<subseteq> (\<lambda>x. md_id (metadata x)) ` set rs2"
      by (rule run_rules_executed_subset)
    ultimately show ?thesis
      unfolding exec by auto
  qed
  show ?thesis
    using skipped errs exec not_exec st1 by simp
qed


theorem engine_fault_isolation_witness:
  "select_rules example_registry None = [] @ raising_rule ''R-BOOM'' # [PLZFormatRule_obj repr_tenths]
   \<and> is_applicable (raising_rule ''R-BOOM'') plz_df
        (snd (run_rules plz_df (new_result plz_df, empty_config) []))
   \<and> validate (raising_rule ''R-BOOM'') plz_df
        (snd (run_rules plz_df (new_result plz_df, empty_config) []))
        = (Inl (Exception ''boom''), empty_config)
   \<and> ''R-BOOM'' \<in> set (rules_skipped (engine_validate example_registry plz_df empty_config None))
   \<and> ''R-BOOM'' \<notin> set (rules_executed (engine_validate example_registry plz_df empty_config None))
   \<and> errors (engine_validate example_registry plz_df empty_config None) = plz_findings"
proof -
  have h2: "is_applicable (raising_rule ''R-BOOM'') plz_df
        (snd (run_rules plz_df (new_result plz_df, empty_config) []))"
    by (simp add: is_applicable_def raising_rule_def)
  have h3: "validate (raising_rule ''R-BOOM'') plz_df
        (snd (run_rules plz_df (new_result plz_df, empty_config) []))
        = (Inl (Exception ''boom''), empty_config)"
    by (simp add: raising_rule_def run_rules_def)
  have d: "distinct (map (\<lambda>x. md_id (metadata x)) (select_rules example_registry None))"
    by (simp add: example_registry_rules raising_rule_def PLZFormatRule_obj_def)
  have app: "is_applicable (PLZFormatRule_obj repr_tenths) plz_df empty_config"
    by (simp add: is_applicable_def PLZFormatRule_obj_def plz_df_def empty_config_def dict_get_def)
  have e: "errors (fst (run_rules plz_df (new_result plz_df, empty_config)
             [PLZFormatRule_obj repr_tenths])) = plz_findings"
  proof -
    obtain c where "PLZFormatRule_validate repr_tenths plz_df empty_config = (Inr plz_findings, c)"
      using plz_df_findings [of repr_tenths]
      by (cases "PLZFormatRule_validate repr_tenths plz_df empty_config") auto
    then show ?thesis
      using app by (simp add: run_rules_def run_rule_def new_result_def PLZFormatRule_obj_def)
  qed
  have rid: "md_id (metadata (raising_rule ''R-BOOM'')) = ''R-BOOM''"
    by (simp add: raising_rule_def)
  have e0: "errors (fst (run_rules plz_df (new_result plz_df, empty_config) [])) = []"
    by (simp add: run_rules_def new_result_def)
  note iso = engine_fault_isolation [OF example_registry_rules h2 h3]
  have c1: "''R-BOOM'' \<in> set (rules_skipped (engine_validate example_registry plz_df empty_config None))"
    using iso unfolding rid by blast
  have c2: "''R-BOOM'' \<notin> set (rules_executed (engine_validate example_registry plz_df empty_config None))"
    using iso d unfolding rid by blast
  have c3: "errors (engine_validate example_registry plz_df empty_config None) = plz_findings"
  proof -
    have "errors (engine_validate example_registry plz_df empty_config None) =
        errors (fst (run_rules plz_df (new_result plz_df, empty_config) []))
          @ errors (fst (run_rules plz_df (new_result plz_df, empty_config)
              [PLZFormatRule_obj repr_tenths]))"
      using iso by blast
    then show ?thesis by (simp add: e e0)
  qed
  show ?thesis
    using example_registry_rules h2 h3 c1 c2 c3 by blast
qed

section \<open>An empty list of rule ids\<close>

lemma run_rule_recorded:
  "mset (rules_executed (fst (run_rule df (new_result df, cfg) r))
       @ rules_skipped (fst (run_rule df (new_result df, cfg) r)))
     = {#md_id (metadata r)#}"
  by (simp add: run_rule_def new_result_def split: prod.splits sum.splits)

lemma run_rules_recorded:
  "mset (rules_executed (fst (run_rules df (new_result df, cfg) rs))
       @ rules_skipped (fst (run_rules df (new_result df, cfg) rs)))
     = mset (map (\<lambda>r. md_id (metadata r)) rs)"
proof (induction rs arbitrary: cfg)
  case Nil
  show ?case by (simp add: run_rules_def new_result_def)
next
  case (Cons r rs)
  obtain d c1 where d: "run_rule df (new_result df, cfg) r = (d, c1)"
    by (cases "run_rule df (new_result df, cfg) r")
  have split: "run_rules df (new_result df, cfg) (r # rs) =
      (extend_result d (fst (run_rules df (new_result df, c1) rs)),
       snd (run_rules df (new_result df, c1) rs))"
    using run_rules_extend [of df d c1 rs] d by (simp add: run_rules_Cons)
  have one: "mset (rules_executed d @ rules_skipped d) = {#md_id (metadata r)#}"
    using run_rule_recorded [of df cfg r] d by simp
  show ?case
    using Cons.IH [of c1] one by (simp add: split extend_result_def ac_simps)
qed

text \<open>
  Claim C10. A call with \<^verbatim>\<open>rule_ids\<close> the empty list gives the same result, and leaves the
  same configuration, as a call without \<^verbatim>\<open>rule_ids\<close>: the rules it takes are all the rules
  of the registry, the run is the loop over all of them, and each of them is recorded once,
  as executed or as skipped.
\<close>

theorem empty_rule_ids_same_as_absent:
  "engine_validate reg df cfg (Some []) = engine_validate reg df cfg None
   \<and> engine_run reg df cfg (Some []) = engine_run reg df cfg None
   \<and> select_rules reg (Some []) = map snd reg
   \<and> engine_run reg df cfg (Some []) = run_rules df (new_result df, cfg) (map snd reg)
   \<and> mset (rules_executed (engine_validate reg df cfg (Some []))
          @ rules_skipped (engine_validate reg df cfg (Some [])))
       = mset (map (\<lambda>r. md_id (metadata r)) (map snd reg))"
proof -
  have sel: "select_rules reg (Some []) = map snd reg"
    and sel_none: "select_rules reg None = map snd reg"
    by (simp_all add: select_rules_def get_all_rules_def)
  have run: "engine_run reg df cfg (Some []) = run_rules df (new_result df, cfg) (map snd reg)"
    and run_none: "engine_run reg df cfg None = run_rules df (new_result df, cfg) (map snd reg)"
    by (simp_all add: engine_run_def sel sel_none)
  have rec: "mset (rules_executed (engine_validate reg df cfg (Some []))
          @ rules_skipped (engine_validate reg df cfg (Some [])))
       = mset (map (\<lambda>r. md_id (metadata r)) (map snd reg))"
    unfolding engine_validate_def run by (rule run_rules_recorded)
  show ?thesis
    using sel run run_none rec by (simp add: engine_validate_def)
qed

text \<open>
  On a registry of three rules the empty list runs all three, where a list with one id runs
  that rule only.
\<close>

lemma three_rules_all_considered:
  "get_rule_ids three_rule_registry = [''R-BOOM'', ''R-ADDR-02'', ''R-EGID-02'']
   \<and> rules_executed (engine_validate three_rule_registry plz_df empty_config (Some []))
       = [''R-ADDR-02'']
   \<and> rules_skipped (engine_validate three_rule_registry plz_df empty_config (Some []))
       = [''R-BOOM'', ''R-EGID-02'']
   \<and> errors (engine_validate three_rule_registry plz_df empty_config (Some [])) = plz_findings
   \<and> rules_executed (engine_validate three_rule_registry plz_df empty_config (Some [''R-EGID-02'']))
       = []
   \<and> rules_skipped (engine_validate three_rule_registry plz_df empty_config (Some [''R-EGID-02'']))
       = [''R-EGID-02'']"
  by code_simp

section \<open>Passed rows and pass rate\<close>

lemma error_rows_card:
  "length (remdups (map row_index (filter (\<lambda>e. severity e = ERROR) es)))
     = card {i. \<exists>e \<in> set es. severity e = ERROR \<and> row_index e = i}"
proof -
  have "set (map row_index (filter (\<lambda>e. severity e = ERROR) es))
      = {i. \<exists>e \<in> set es. severity e = ERROR \<and> row_index e = i}"
    by auto
  then show ?thesis
    by (metis length_remdups_card_conv)
qed

lemma bound_gt: "512 < float_overflow_bound"
  by (simp add: float_overflow_bound_def)

lemma not_overflows: "\<bar>q\<bar> \<le> 512 \<Longrightarrow> \<not> float_overflows q"
  using bound_gt by (simp add: float_overflows_def)

lemma pow2_values:
  "pow2 0 = 1" "pow2 8 = 256" "pow2 9 = 512"
  "pow2 (- 53) = 1 / 2 ^ 53" "pow2 (- 45) = 1 / 2 ^ 45" "pow2 (- 44) = 1 / 2 ^ 44"
  by (simp_all add: pow2_def)

lemma pass_rate_finite:
  assumes t: "0 < total_rows res" and v: "pass_rate res = Inr (Finite v)"
  shows "\<exists>k. v = binary64 (of_int k / 10)
     \<and> \<bar>of_int k / 10
          - binary64 (binary64 (of_int (passed_rows res) / of_int (total_rows res)) * 100)\<bar>
        \<le> 1 / 20"
proof -
  define y where
    "y = binary64 (binary64 (of_int (passed_rows res) / of_int (total_rows res)) * 100)"
  define k where "k = round_half_even (y * 10)"
  have "\<bar>of_int k - y * 10\<bar> \<le> 1 / 2"
    unfolding k_def by (rule round_half_even_close)
  then have close: "\<bar>of_int k / 10 - y\<bar> \<le> 1 / 20"
    by (simp add: abs_le_iff field_simps)
  have "v = binary64 (of_int k / 10)"
    using t v
    by (auto simp: pass_rate_def int_true_div_def fl_mul_def float_of_rat_def py_round1_def
        Let_def y_def k_def split: if_splits)
  with close show ?thesis
    unfolding y_def by blast
qed

lemma pass_rate_accurate:
  assumes t: "0 < total_rows res" and p: "\<bar>passed_rows res\<bar> \<le> total_rows res"
  shows "\<exists>v. pass_rate res = Inr (Finite v)
     \<and> \<bar>v - of_int (passed_rows res) / of_int (total_rows res) * 100\<bar> \<le> 1 / 20 + 1 / 2 ^ 43"
proof -
  define q0 :: rat where "q0 = of_int (passed_rows res) / of_int (total_rows res)"
  define q where "q = binary64 q0"
  define y where "y = binary64 (q * 100)"
  define k where "k = round_half_even (y * 10)"
  define d :: rat where "d = of_int k / 10"
  define v where "v = binary64 d"
  have q0_le: "\<bar>q0\<bar> \<le> 1"
  proof -
    have "\<bar>rat_of_int (passed_rows res)\<bar> \<le> rat_of_int (total_rows res)"
      using p by (metis of_int_abs of_int_le_iff)
    then show ?thesis using t by (simp add: q0_def)
  qed
  have e1: "\<bar>q - q0\<bar> \<le> 1 / 2 ^ 53"
    using binary64_error [of q0 0] q0_le by (simp add: q_def pow2_values)
  have q_le: "\<bar>q\<bar> \<le> 2"
  proof -
    have "\<bar>q\<bar> \<le> \<bar>q - q0\<bar> + \<bar>q0\<bar>" by simp
    also have "\<dots> \<le> 1 / 2 ^ 53 + 1" using e1 q0_le by linarith
    also have "\<dots> \<le> 2" by simp
    finally show ?thesis .
  qed
  have x_le: "\<bar>q * 100\<bar> \<le> 256"
    using q_le by (simp add: abs_mult)
  have e2: "\<bar>y - q * 100\<bar> \<le> 1 / 2 ^ 45"
    using binary64_error [of "q * 100" 8] x_le by (simp add: y_def pow2_values)
  have y_le: "\<bar>y\<bar> \<le> 257"
  proof -
    have "\<bar>y\<bar> \<le> \<bar>y - q * 100\<bar> + \<bar>q * 100\<bar>" by simp
    also have "\<dots> \<le> 1 / 2 ^ 45 + 256" using e2 x_le by linarith
    also have "\<dots> \<le> 257" by simp
    finally show ?thesis .
  qed
  have "\<bar>of_int k - y * 10\<bar> \<le> 1 / 2"
    unfolding k_def by (rule round_half_even_close)
  then have e3: "\<bar>d - y\<bar> \<le> 1 / 20"
    by (simp add: d_def abs_le_iff field_simps)
  have d_le: "\<bar>d\<bar> \<le> 512"
  proof -
    have "\<bar>d\<bar> \<le> \<bar>d - y\<bar> + \<bar>y\<bar>" by simp
    also have "\<dots> \<le> 1 / 20 + 257" using e3 y_le by linarith
    also have "\<dots> \<le> 512" by simp
    finally show ?thesis .
  qed
  have e4: "\<bar>v - d\<bar> \<le> 1 / 2 ^ 44"
    using binary64_error [of d 9] d_le by (simp add: v_def pow2_values)
  have no1: "\<not> float_overflows q0" using q0_le by (intro not_overflows) simp
  have no2: "\<not> float_overflows (q * 100)" using x_le by (intro not_overflows) simp
  have no3: "\<not> float_overflows d" using d_le by (intro not_overflows) simp
  have tne: "total_rows res \<noteq> 0" using t by simp
  have div: "int_true_div (passed_rows res) (total_rows res) = Inr (Finite q)"
    using no1 tne by (simp add: int_true_div_def q_def q0_def)
  have mul: "fl_mul (Finite q) (Finite 100) = Finite y"
    using no2 by (simp add: fl_mul_def float_of_rat_def y_def)
  have rnd: "py_round1 (Finite y) = Inr (Finite v)"
    using no3 by (simp add: py_round1_def Let_def v_def d_def k_def)
  have val: "pass_rate res = Inr (Finite v)"
    using t by (simp add: pass_rate_def div mul rnd)
  define A B C D where "A = v - d" and "B = d - y" and "C = y - q * 100" and "D = 100 * (q - q0)"
  have total: "v - q0 * 100 = A + B + C + D"
    by (simp add: A_def B_def C_def D_def)
  have dA: "\<bar>A\<bar> \<le> 1 / 2 ^ 44" using e4 by (simp add: A_def)
  have dB: "\<bar>B\<bar> \<le> 1 / 20" using e3 by (simp add: B_def)
  have dC: "\<bar>C\<bar> \<le> 1 / 2 ^ 45" using e2 by (simp add: C_def)
  have dD: "\<bar>D\<bar> \<le> 100 * (1 / 2 ^ 53)"
  proof -
    have "\<bar>D\<bar> = \<bar>100\<bar> * \<bar>q - q0\<bar>" unfolding D_def by (rule abs_mult)
    then have "\<bar>D\<bar> = 100 * \<bar>q - q0\<bar>" by simp
    also have "\<dots> \<le> 100 * (1 / 2 ^ 53)" using e1 by (intro mult_left_mono) simp_all
    finally show ?thesis .
  qed
  have "\<bar>A + B + C + D\<bar> \<le> \<bar>A\<bar> + \<bar>B\<bar> + \<bar>C\<bar> + \<bar>D\<bar>"
    by linarith
  also have "\<dots> \<le> 1 / 2 ^ 44 + 1 / 20 + 1 / 2 ^ 45 + 100 * (1 / 2 ^ 53)"
    using dA dB dC dD by (intro add_mono)
  also have "\<dots> \<le> 1 / 20 + 1 / 2 ^ 43" by simp
  finally have "\<bar>v - q0 * 100\<bar> \<le> 1 / 20 + 1 / 2 ^ 43"
    unfolding total .
  with val show ?thesis unfolding q0_def by blast
qed

text \<open>
  Claim C4 fails as stated: with 51 of 80 rows passed the quotient times 100 is exactly
  63.75, which \<^verbatim>\<open>round\<close> takes to 63.8, but the binary64 product computed by the code lies
  just below 63.75 and the serialised \<^verbatim>\<open>pass_rate\<close> is 63.7; with 3 of 16 rows passed the
  exact 18.75 is computed exactly and rounded to 18.8.
\<close>

theorem pass_rate_tie_counterexample:
  "total_rows fifty_one_of_eighty = 80
   \<and> passed_rows fifty_one_of_eighty = 51
   \<and> pass_rate fifty_one_of_eighty = Inr (Finite (binary64 (637 / 10)))
   \<and> py_round1 (Finite (51 / 80 * 100)) = Inr (Finite (binary64 (638 / 10)))
   \<and> binary64 (637 / 10) \<noteq> binary64 (638 / 10)
   \<and> binary64 (binary64 (51 / 80) * 100) = 8972014882652159 / 140737488355328
   \<and> 8972014882652159 / 140737488355328 < (51 / 80 * 100 :: rat)
   \<and> total_rows three_of_sixteen = 16
   \<and> passed_rows three_of_sixteen = 3
   \<and> pass_rate three_of_sixteen = Inr (Finite (binary64 (188 / 10)))"
  by code_simp

text \<open>
  Claim C4, amended. For every result, \<^verbatim>\<open>passed_rows\<close> is \<^verbatim>\<open>total_rows\<close> minus the number of
  distinct row indices that carry a finding of severity ERROR, and \<^verbatim>\<open>pass_rate\<close> is 100 when
  \<^verbatim>\<open>total_rows\<close> is 0. For a positive \<^verbatim>\<open>total_rows\<close> the serialised \<^verbatim>\<open>pass_rate\<close> is computed
  in binary64: a finite value of it is the float nearest to a multiple of one tenth that is
  at distance at most one twentieth from the binary64 product of the binary64 quotient
  \<^verbatim>\<open>passed_rows / total_rows\<close> and 100; and when \<^verbatim>\<open>passed_rows\<close> is at most \<^verbatim>\<open>total_rows\<close> in
  magnitude the value is finite and differs from the exact \<^verbatim>\<open>passed_rows / total_rows * 100\<close>
  by at most one twentieth and \<open>2^-43\<close>.
\<close>

theorem passed_rows_and_pass_rate:
  "passed_rows res =
      total_rows res - int (card {i. \<exists>e \<in> set (errors res). severity e = ERROR \<and> row_index e = i})
   \<and> (total_rows res = 0 \<longrightarrow> pass_rate res = Inr (Finite 100))
   \<and> (0 < total_rows res \<longrightarrow>
        (\<forall>v. pass_rate res = Inr (Finite v) \<longrightarrow>
           (\<exists>k. v = binary64 (of_int k / 10)
              \<and> \<bar>of_int k / 10
                  - binary64 (binary64 (of_int (passed_rows res) / of_int (total_rows res)) * 100)\<bar>
                \<le> 1 / 20)))
   \<and> (0 < total_rows res \<and> \<bar>passed_rows res\<bar> \<le> total_rows res \<longrightarrow>
        (\<exists>v. pass_rate res = Inr (Finite v)
           \<and> \<bar>v - of_int (passed_rows res) / of_int (total_rows res) * 100\<bar>
             \<le> 1 / 20 + 1 / 2 ^ 43))"
proof -
  have a: "passed_rows res =
      total_rows res - int (card {i. \<exists>e \<in> set (errors res). severity e = ERROR \<and> row_index e = i})"
    by (simp add: passed_rows_def error_rows_card)
  have b: "total_rows res = 0 \<longrightarrow> pass_rate res = Inr (Finite 100)"
    by (simp add: pass_rate_def)
  show ?thesis
    using a b pass_rate_finite [of res] pass_rate_accurate [of res] by blast
qed

theorem passed_rows_and_pass_rate_witness:
  "0 < total_rows one_error_of_three
   \<and> \<bar>passed_rows one_error_of_three\<bar> \<le> total_rows one_error_of_three
   \<and> passed_rows one_error_of_three = 2
   \<and> pass_rate one_error_of_three = Inr (Finite (binary64 (667 / 10)))
   \<and> \<bar>binary64 (667 / 10) - 2 / 3 * 100\<bar> \<le> 1 / 20 + 1 / 2 ^ 43
   \<and> pass_rate (one_error_of_three\<lparr>total_rows := 0\<rparr>) = Inr (Finite 100)"
proof -
  have t: "0 < total_rows one_error_of_three"
    by (simp add: one_error_of_three_def)
  have p: "passed_rows one_error_of_three = 2"
    by code_simp
  have tv: "total_rows one_error_of_three = 3"
    by (simp add: one_error_of_three_def)
  have r: "pass_rate one_error_of_three = Inr (Finite (binary64 (667 / 10)))"
    by code_simp
  have z: "total_rows (one_error_of_three\<lparr>total_rows := 0\<rparr>) = 0"
    by simp
  have dom: "0 < total_rows one_error_of_three
      \<and> \<bar>passed_rows one_error_of_three\<bar> \<le> total_rows one_error_of_three"
    using p tv by simp
  have "\<exists>v. pass_rate one_error_of_three = Inr (Finite v)
      \<and> \<bar>v - of_int (passed_rows one_error_of_three) / of_int (total_rows one_error_of_three) * 100\<bar>
        \<le> 1 / 20 + 1 / 2 ^ 43"
    using passed_rows_and_pass_rate [of one_error_of_three] dom by blast
  then have acc: "\<bar>binary64 (667 / 10) - 2 / 3 * 100\<bar> \<le> 1 / 20 + 1 / 2 ^ 43"
    using r p tv by auto
  have "pass_rate (one_error_of_three\<lparr>total_rows := 0\<rparr>) = Inr (Finite 100)"
    using passed_rows_and_pass_rate [of "one_error_of_three\<lparr>total_rows := 0\<rparr>"] z by blast
  then show ?thesis
    using dom p r acc by blast
qed

section \<open>Findings by category\<close>

lemma split_on_nonempty: "split_on sep s \<noteq> []"
  by (induction s) auto

lemma length_split_on: "length (split_on sep s) = Suc (length (filter (\<lambda>c. c = sep) s))"
proof (induction s)
  case Nil
  show ?case by simp
next
  case (Cons c cs)
  have "length (tl (split_on sep cs)) = length (split_on sep cs) - 1"
    by simp
  with Cons split_on_nonempty [of sep cs] show ?case
    by (cases "split_on sep cs") auto
qed

lemma split_on_two: "2 \<le> length (split_on sep s) \<longleftrightarrow> sep \<in> set s"
proof -
  have "0 < length (filter (\<lambda>c. c = sep) s) \<longleftrightarrow> sep \<in> set s"
    by (induction s) auto
  then show ?thesis
    by (simp add: length_split_on Suc_le_eq)
qed

lemma cat_map_lookup: "dict_get cat_map seg ''general'' = category_name seg"
  by (simp add: dict_get_def cat_map_def category_name_def)

lemma map_of_replace_other:
  "x \<noteq> k \<Longrightarrow>
     map_of (map (\<lambda>(k', v'). if k' = k then (k', v) else (k', v')) d) x = map_of d x"
  by (induction d) auto

lemma map_of_replace_same:
  "map_of d k = Some old \<Longrightarrow>
     map_of (map (\<lambda>(k', v'). if k' = k then (k', v) else (k', v')) d) k = Some v"
  by (induction d) (auto split: if_splits)

lemma map_of_dict_set: "map_of (dict_set d k v) x = (if x = k then Some v else map_of d x)"
proof (cases "map_of d k")
  case None
  then have notin: "k \<notin> fst ` set d"
    by (simp add: map_of_eq_None_iff)
  then have eq: "dict_set d k v = d @ [(k, v)]"
    by (simp only: dict_set_def if_False)
  show ?thesis
    unfolding eq using None by (auto simp: map_add_def split: option.splits)
next
  case (Some old)
  then have isin: "k \<in> fst ` set d"
    by (metis map_of_eq_None_iff option.distinct(1))
  then have eq: "dict_set d k v = map (\<lambda>(k', v'). if k' = k then (k', v) else (k', v')) d"
    by (simp only: dict_set_def if_True)
  show ?thesis
  proof (cases "x = k")
    case True
    then show ?thesis
      unfolding eq using map_of_replace_same [OF Some, of v] by simp
  next
    case False
    then show ?thesis
      unfolding eq using map_of_replace_other [of x k v d] by simp
  qed
qed

lemma keys_replace:
  "map fst (map (\<lambda>(k', v'). if k' = k then (k', v) else (k', v')) d) = map fst d"
  by (induction d) auto

lemma distinct_dict_set:
  assumes "distinct (map fst d)"
  shows "distinct (map fst (dict_set d k v))"
proof (cases "k \<in> fst ` set d")
  case True
  then have "dict_set d k v = map (\<lambda>(k', v'). if k' = k then (k', v) else (k', v')) d"
    by (simp only: dict_set_def if_True)
  then have "map fst (dict_set d k v) = map fst d"
    by (simp only: keys_replace)
  with assms show ?thesis by simp
next
  case False
  then have "dict_set d k v = d @ [(k, v)]"
    by (simp only: dict_set_def if_False)
  with False assms show ?thesis by auto
qed

lemma sum_dict_update:
  "distinct (map fst d) \<Longrightarrow> map_of d k = Some old \<Longrightarrow>
     sum_list (map snd (map (\<lambda>(k', v'). if k' = k then (k', v) else (k', v')) d)) + old
       = sum_list (map snd d) + (v :: nat)"
proof (induction d)
  case Nil
  then show ?case by simp
next
  case (Cons p d)
  obtain k1 v1 where p: "p = (k1, v1)" by (cases p)
  show ?case
  proof (cases "k1 = k")
    case True
    then have "k \<notin> fst ` set d" using Cons.prems p by auto
    then have "map (\<lambda>(k', v'). if k' = k then (k', v) else (k', v')) d = d"
      by (induction d) auto
    with True p Cons.prems show ?thesis by simp
  next
    case False
    with p Cons show ?thesis by simp
  qed
qed

lemma sum_dict_incr:
  assumes dist: "distinct (map fst d)"
  shows "sum_list (map snd (dict_incr d k)) = sum_list (map snd d) + 1"
proof (cases "map_of d k")
  case None
  then have notin: "k \<notin> fst ` set d" by (simp add: map_of_eq_None_iff)
  then have "dict_set d k (dict_get d k 0 + 1) = d @ [(k, dict_get d k 0 + 1)]"
    by (simp only: dict_set_def if_False)
  then show ?thesis
    using None by (simp add: dict_incr_def dict_get_def)
next
  case (Some old)
  then have isin: "k \<in> fst ` set d"
    by (metis map_of_eq_None_iff option.distinct(1))
  have g: "dict_get d k 0 = old"
    using Some by (simp add: dict_get_def)
  have "dict_incr d k = map (\<lambda>(k', v'). if k' = k then (k', old + 1) else (k', v')) d"
    using isin by (simp only: dict_incr_def dict_set_def g if_True)
  then have "sum_list (map snd (dict_incr d k)) + old = sum_list (map snd d) + (old + 1)"
    using sum_dict_update [OF dist Some, of "old + 1"] by (simp only:)
  then show ?thesis by linarith
qed

lemma get_dict_incr:
  "dict_get (dict_incr d k) c 0 = dict_get d c 0 + (if c = k then 1 else 0)"
  by (simp add: dict_incr_def dict_get_def map_of_dict_set)

lemma count_category_step:
  "count_category counts e =
     (if tallied e then dict_incr counts (category_name (second_segment (rule_id e))) else counts)"
  by (simp add: count_category_def Let_def split_on_two tallied_def cat_map_lookup second_segment_def)

lemma tally_fold:
  assumes "distinct (map fst acc)"
  shows "distinct (map fst (foldl count_category acc es))
    \<and> sum_list (map snd (foldl count_category acc es))
        = sum_list (map snd acc) + length (filter tallied es)
    \<and> dict_get (foldl count_category acc es) c 0
        = dict_get acc c 0
          + length (filter (\<lambda>e. tallied e \<and> category_name (second_segment (rule_id e)) = c) es)"
  using assms
proof (induction es arbitrary: acc)
  case Nil
  then show ?case by simp
next
  case (Cons e es)
  have d: "distinct (map fst (count_category acc e))"
    using Cons.prems by (simp add: count_category_step dict_incr_def distinct_dict_set)
  show ?case
    using Cons.IH [OF d] Cons.prems
    by (auto simp: count_category_step sum_dict_incr get_dict_incr)
qed

text \<open>
  Claim C8 fails as stated: a finding whose rule id has the second segment \<^verbatim>\<open>CUSTOM\<close> is
  tallied under \<^verbatim>\<open>custom\<close>, not under \<^verbatim>\<open>general\<close>, and a finding whose rule id has no
  second segment is not tallied, so the counts of this result of two findings sum to one.
\<close>

theorem errors_by_category_counterexample:
  "get_errors_by_category custom_and_plain = [(''custom'', 1)]
   \<and> dict_get (get_errors_by_category custom_and_plain) ''general'' 0 = 0
   \<and> sum_list (map snd (get_errors_by_category custom_and_plain)) = 1
   \<and> length (errors custom_and_plain) = 2"
  by code_simp

text \<open>
  Claim C8, amended. \<^verbatim>\<open>errors_by_category\<close> tallies every finding whose rule id contains a
  dash by the second dash-separated segment of the id, under the table ADDR to address,
  COORD to coordinates, EGID to egid, GEN to general, CUSTOM to custom and every other
  segment to general; the count of a category is the number of such findings mapped to
  it, each category occurs once, and the counts sum to the number of findings whose rule
  id contains a dash.
\<close>

theorem errors_by_category_tally:
  "dict_get (get_errors_by_category res) c 0
      = length (filter (\<lambda>e. tallied e \<and> category_name (second_segment (rule_id e)) = c)
          (errors res))
   \<and> sum_list (map snd (get_errors_by_category res)) = length (filter tallied (errors res))
   \<and> distinct (map fst (get_errors_by_category res))"
  using tally_fold [of "[]" "errors res" c]
  by (simp add: get_errors_by_category_def dict_get_def)

section \<open>Postal code format\<close>

text \<open>
  Claim C5 fails as stated: the value \<^verbatim>\<open>12000\<close> is all digits and has five of them, so the
  rule reports its length and never reaches the range check.
\<close>

theorem plz_12000_counterexample:
  "fst (PLZFormatRule_validate repr_tenths (plz_single ''12000'') empty_config)
     = Inr [plz_error 0 ''plz'' (StrV ''12000'') ''PLZ muss 4-stellig sein: '12000' (5 Stellen)'']
   \<and> fst (PLZFormatRule_validate repr_tenths (plz_single ''12000'') empty_config)
     \<noteq> Inr [plz_error 0 ''plz'' (StrV ''12000'')
              (''PLZ ausserhalb g'' @ [CHR 0xFC] @ ''ltiger Bereich: '12000' (muss 1000-9999 sein)'')]"
  by code_simp

text \<open>The range finding is what a value of four digits below 1000 gets.\<close>

lemma plz_range_reachable:
  "fst (PLZFormatRule_validate float_repr (plz_single ''0999'') empty_config)
     = Inr [plz_error 0 ''plz'' (StrV ''0999'')
              (''PLZ ausserhalb g'' @ [CHR 0xFC] @ ''ltiger Bereich: '0999' (muss 1000-9999 sein)'')]"
  by code_simp

text \<open>
  Claim C5, amended. On a dataset whose postal code column resolves, the value \<^verbatim>\<open>8001\<close>
  yields no finding, \<^verbatim>\<open>800\<close> a length finding, \<^verbatim>\<open>ABCD\<close> a not-numeric finding, \<^verbatim>\<open>12000\<close>
  a length finding (five digits), and \<^verbatim>\<open>8001.0\<close> no finding, as it is normalised to
  \<^verbatim>\<open>8001\<close>.
\<close>

theorem plz_format_examples:
  "fst (PLZFormatRule_validate float_repr (plz_single ''8001'') empty_config) = Inr []
   \<and> fst (PLZFormatRule_validate float_repr (plz_single ''800'') empty_config)
       = Inr [plz_error 0 ''plz'' (StrV ''800'') ''PLZ muss 4-stellig sein: '800' (3 Stellen)'']
   \<and> fst (PLZFormatRule_validate float_repr (plz_single ''ABCD'') empty_config)
       = Inr [plz_error 0 ''plz'' (StrV ''ABCD'') (''PLZ muss numerisch sein: '' @ quote ''ABCD'')]
   \<and> fst (PLZFormatRule_validate float_repr (plz_single ''12000'') empty_config)
       = Inr [plz_error 0 ''plz'' (StrV ''12000'') ''PLZ muss 4-stellig sein: '12000' (5 Stellen)'']
   \<and> fst (PLZFormatRule_validate float_repr (plz_single ''8001.0'') empty_config) = Inr []
   \<and> plz_normalize ''8001.0'' = Inr ''8001''"
  by code_simp

section \<open>Swiss bounds\<close>

text \<open>
  Claim C6 fails as stated: with the coordinate system left to detection, the pair
  (1000000, 500000) is in neither range, so the rule emits the single finding that the
  system cannot be recognised and does not check the bounds.
\<close>

theorem swiss_bounds_counterexample:
  "fst (SwissBoundsRule_validate repr_tenths (coord_single (IntV 1000000) (IntV 500000)) empty_config)
     = Inr [finding SwissBoundsRule 0 ''easting/northing''
              ''Koordinatensystem nicht erkennbar: E=1000000.0, N=500000.0''
              (StrV ''E=1000000.0, N=500000.0'') None]
   \<and> detect_coordinate_system (Finite 1000000) (Finite 500000) = None"
  by code_simp

text \<open>The two findings, one for each axis, are what the pair gets when LV95 is forced.\<close>

lemma binary64_examples:
  "binary64 1000000 = 1000000" "binary64 500000 = 500000"
  by code_simp+

lemma swiss_bounds_forced_lv95:
  "fst (SwissBoundsRule_validate float_repr (coord_single (IntV 1000000) (IntV 500000)) lv95_config)
     = Inr [finding SwissBoundsRule 0 ''easting''
              (''E-Koordinate ausserhalb Schweiz: '' @ float_repr 1000000 @ '' (LV95: 2485000-2834000)'')
              (FloatV (Finite 1000000)) None,
            finding SwissBoundsRule 0 ''northing''
              (''N-Koordinate ausserhalb Schweiz: '' @ float_repr 500000 @ '' (LV95: 1075000-1296000)'')
              (FloatV (Finite 500000)) None]"
proof -
  have "fst (SwissBoundsRule_validate float_repr (coord_single (IntV 1000000) (IntV 500000)) lv95_config)
     = Inr [finding SwissBoundsRule 0 ''easting''
              (''E-Koordinate ausserhalb Schweiz: '' @ float_repr (binary64 1000000)
                 @ '' (LV95: 2485000-2834000)'')
              (FloatV (Finite (binary64 1000000))) None,
            finding SwissBoundsRule 0 ''northing''
              (''N-Koordinate ausserhalb Schweiz: '' @ float_repr (binary64 500000)
                 @ '' (LV95: 1075000-1296000)'')
              (FloatV (Finite (binary64 500000))) None]"
    by code_simp
  then show ?thesis
    by (simp only: binary64_examples)
qed

text \<open>
  Claim C6, amended. On a dataset with resolved easting and northing columns and a
  configuration that does not force a coordinate system, a row with (2600000, 1200000)
  yields no finding, a row with (1000000, 500000) yields exactly one finding (the
  coordinate system cannot be recognised), and a row with (7.5, 46.9) yields no finding.
\<close>

theorem swiss_bounds_examples:
  "fst (SwissBoundsRule_validate float_repr (coord_single (IntV 2600000) (IntV 1200000)) empty_config)
     = Inr []
   \<and> fst (SwissBoundsRule_validate float_repr (coord_single (IntV 1000000) (IntV 500000)) empty_config)
     = Inr [undetected_finding float_repr 0]
   \<and> fst (SwissBoundsRule_validate float_repr
        (coord_single (FloatV (Finite (75 / 10))) (FloatV (Finite (469 / 10)))) empty_config)
     = Inr []
   \<and> fst (SwissBoundsRule_validate float_repr coord_df empty_config)
     = Inr [undetected_finding float_repr 1]"
proof -
  have lv95: "fst (SwissBoundsRule_validate float_repr
      (coord_single (IntV 2600000) (IntV 1200000)) empty_config) = Inr []"
    by code_simp
  have undetected: "fst (SwissBoundsRule_validate float_repr
      (coord_single (IntV 1000000) (IntV 500000)) empty_config)
     = Inr [finding SwissBoundsRule 0 ''easting/northing''
             (''Koordinatensystem nicht erkennbar: E='' @ float_repr (binary64 1000000)
                @ '', N='' @ float_repr (binary64 500000))
             (StrV (''E='' @ float_repr (binary64 1000000) @ '', N=''
                @ float_repr (binary64 500000))) None]"
    by code_simp
  have wgs84: "fst (SwissBoundsRule_validate float_repr
      (coord_single (FloatV (Finite (75 / 10))) (FloatV (Finite (469 / 10)))) empty_config) = Inr []"
    by code_simp
  have three: "fst (SwissBoundsRule_validate float_repr coord_df empty_config)
     = Inr [finding SwissBoundsRule 1 ''easting/northing''
             (''Koordinatensystem nicht erkennbar: E='' @ float_repr (binary64 1000000)
                @ '', N='' @ float_repr (binary64 500000))
             (StrV (''E='' @ float_repr (binary64 1000000) @ '', N=''
                @ float_repr (binary64 500000))) None]"
    by code_simp
  show ?thesis
    using lv95 undetected wgs84 three
    by (simp only: binary64_examples undetected_finding_def simp_thms)
qed

section \<open>EGID uniqueness\<close>

text \<open>
  Claim C7. On a dataset whose EGID column holds 123, 123, 456 in row order the rule emits
  exactly one finding; it is attached to row index 1, and its message lists the display
  rows 2 and 3 of the two occurrences, the first being index 0 plus 2.
\<close>

theorem egid_uniqueness_example:
  "fst (EGIDUniquenessRule_validate float_repr egid_df empty_config)
     = Inr [\<lparr>row_index = 1, column = ''egid'', rule_id = ''R-EGID-02'',
             rule_name = ''EGID-Eindeutigkeit'', severity = WARNING,
             message = ''EGID '123' kommt mehrfach vor (Zeilen: 2, 3)'',
             val = StrV ''123'',
             suggestion = Some (''Pr'' @ [CHR 0xFC] @ ''fen Sie, ob es sich um Duplikate oder ''
                 @ ''verschiedene Einheiten handelt'')\<rparr>]
   \<and> join '', '' (map (\<lambda>r. str_int (int r + 2)) [0, 1]) = ''2, 3''"
  by code_simp

section \<open>The default catalogue\<close>

text \<open>
  Claim C9 fails as stated: the default registry holds more than 13 rules.
\<close>

theorem default_registry_counterexample:
  "length (get_all_rules create_default_registry) \<noteq> 13
   \<and> card (set (get_rule_ids create_default_registry)) \<noteq> 13"
  by code_simp

text \<open>
  Claim C9, amended. The default rule catalogue has exactly 14 rules:
  \<^verbatim>\<open>create_default_registry\<close> returns a registry in which exactly 14 rules, with 14
  distinct rule ids, are registered.
\<close>

theorem default_registry_size:
  "length (get_all_rules create_default_registry) = 14
   \<and> length (get_rule_ids create_default_registry) = 14
   \<and> distinct (get_rule_ids create_default_registry)
   \<and> card (set (get_rule_ids create_default_registry)) = 14"
  by code_simp

section \<open>The caller's configuration\<close>

text \<open>
  What the modelled rules leave unchanged: three of them return the configuration as it
  was, and the data type rule does so when the options carry no list of numeric columns;
  it never changes the column mapping.
\<close>

lemma rules_keep_config:
  "snd (PLZFormatRule_validate float_repr df cfg) = cfg"
  "snd (SwissBoundsRule_validate float_repr df cfg) = cfg"
  "snd (EGIDUniquenessRule_validate float_repr df cfg) = cfg"
  "numeric_columns (opts cfg) = None \<Longrightarrow> snd (DataTypeConsistencyRule_validate float_repr df cfg) = cfg"
  "columns (snd (DataTypeConsistencyRule_validate float_repr df cfg)) = columns cfg"
  by (simp_all add: PLZFormatRule_validate_def SwissBoundsRule_validate_def
      EGIDUniquenessRule_validate_def DataTypeConsistencyRule_validate_def Let_def
      split: option.splits sum.splits)

text \<open>
  Claim C2, at an input where the code departs from it. With the postal code column mapped
  and the caller's list of numeric columns empty, a run of the data type rule leaves the
  caller's list holding the mapped column.
\<close>

theorem numeric_columns_mutated:
  "snd (engine_run dtype_registry mapped_plz_df numeric_config None)
     = numeric_config\<lparr>opts := (opts numeric_config)\<lparr>numeric_columns := Some [''PLZ'']\<rparr>\<rparr>
   \<and> numeric_columns (opts (snd (engine_run dtype_registry mapped_plz_df numeric_config None)))
       \<noteq> numeric_columns (opts numeric_config)
   \<and> rules_executed (engine_validate dtype_registry mapped_plz_df numeric_config None) = [''R-GEN-03'']
   \<and> errors (engine_validate dtype_registry mapped_plz_df numeric_config None) = []"
  by code_simp

section \<open>Applicability\<close>

text \<open>
  The default \<^verbatim>\<open>is_applicable\<close> looks each resolved name up among the dataset's columns as
  it is written; where it holds, \<^verbatim>\<open>get_column\<close> resolves every required column.
\<close>

lemma is_applicable_exact:
  "is_applicable r df cfg \<longleftrightarrow>
     (\<forall>c \<in> set (md_required_columns (metadata r)).
        dict_get (columns cfg) c c \<in> set (df_columns df))"
  by (simp add: is_applicable_def list_all_iff)

lemma is_applicable_resolves:
  "is_applicable r df cfg \<Longrightarrow> c \<in> set (md_required_columns (metadata r)) \<Longrightarrow>
     get_column df cfg c = Some (dict_get (columns cfg) c c)"
  by (simp add: is_applicable_exact get_column_def)

text \<open>
  Claim C3, at an input where the code departs from it. The required column \<^verbatim>\<open>plz\<close>
  matches the dataset column \<^verbatim>\<open>PLZ\<close> without regard to case only: \<^verbatim>\<open>get_column\<close> resolves
  it, \<^verbatim>\<open>is_applicable\<close> is false, and the engine skips the rule.
\<close>

theorem is_applicable_case_sensitive_only:
  "\<not> is_applicable (PLZFormatRule_obj repr_tenths) upper_plz_df empty_config
   \<and> get_column upper_plz_df empty_config ''plz'' = Some ''PLZ''
   \<and> rules_skipped (engine_validate plz_registry upper_plz_df empty_config None) = [''R-ADDR-02'']
   \<and> rules_executed (engine_validate plz_registry upper_plz_df empty_config None) = []"
  by code_simp

end
